theory Spec2Isabelle
  imports Main "HOL-Library.Word" "HOL-Library.AList" "HOL-Library.Char_ord"
    "HOL-Library.List_Lexorder"
begin

section \<open>JavaScript strings\<close>

text \<open>
  A JavaScript string is a sequence of UTF-16 code units. The filename of a request is
  untrusted input and is inspected unit by unit, so it is a list of 16-bit words. The
  literals of the program are written with \<open>js\<close>. Header names and values, message
  bodies and URLs are never inspected unit by unit by the handlers and stay HOL strings.
\<close>

type_synonym code_unit = "16 word"
type_synonym jsstring = "code_unit list"

definition cu :: "char \<Rightarrow> code_unit" where
  "cu c = of_char c"

definition js :: "string \<Rightarrow> jsstring" where
  "js s = map cu s"

text \<open>\<open>s.startsWith(t)\<close> and \<open>s.includes(t)\<close>.\<close>

fun startsWith :: "'a list \<Rightarrow> 'a list \<Rightarrow> bool" where
  "startsWith s [] = True"
| "startsWith [] (p # ps) = False"
| "startsWith (c # cs) (p # ps) = (c = p \<and> startsWith cs ps)"

fun includes_js :: "'a list \<Rightarrow> 'a list \<Rightarrow> bool" where
  "includes_js [] t = (t = [])"
| "includes_js (c # cs) t = (startsWith (c # cs) t \<or> includes_js cs t)"

text \<open>
  \<open>s.split(sep)\<close> for a separator of one code unit: the tokens between the occurrences
  of the separator, in order; the empty string gives one empty token.
\<close>

fun split :: "'a list \<Rightarrow> 'a \<Rightarrow> 'a list list" where
  "split [] sep = [[]]"
| "split (c # cs) sep =
     (if c = sep then [] # split cs sep
      else (case split cs sep of t # ts \<Rightarrow> (c # t) # ts | [] \<Rightarrow> [[c]]))"

text \<open>
  \<open>s.lastIndexOf(c)\<close>: the index of the last occurrence of \<open>c\<close>, or \<open>-1\<close>. The scan
  keeps the index of the latest occurrence seen so far.
\<close>

fun lastIndexOf_from :: "'a list \<Rightarrow> 'a \<Rightarrow> nat \<Rightarrow> int \<Rightarrow> int" where
  "lastIndexOf_from [] c i found = found"
| "lastIndexOf_from (x # xs) c i found =
     lastIndexOf_from xs c (Suc i) (if x = c then int i else found)"

definition lastIndexOf :: "'a list \<Rightarrow> 'a \<Rightarrow> int" where
  "lastIndexOf s c = lastIndexOf_from s c 0 (- 1)"

text \<open>
  \<open>s.slice(start)\<close>: a negative start counts from the end of the string, and the start
  is clamped to the string.
\<close>

definition slice_js :: "'a list \<Rightarrow> int \<Rightarrow> 'a list" where
  "slice_js s start =
     (let len = int (length s);
          from = (if start < 0 then max (len + start) 0 else min start len)
      in drop (nat from) s)"

text \<open>
  \<open>s.toLowerCase()\<close> on the letters \<open>A\<close> to \<open>Z\<close>. The handlers lower-case a
  filename only after it has passed validation, where every code unit is ASCII.
\<close>

definition toLowerCase_unit :: "code_unit \<Rightarrow> code_unit" where
  "toLowerCase_unit u =
     (if cu CHR ''A'' \<le> u \<and> u \<le> cu CHR ''Z'' then u + (cu CHR ''a'' - cu CHR ''A'') else u)"

definition toLowerCase :: "jsstring \<Rightarrow> jsstring" where
  "toLowerCase s = map toLowerCase_unit s"

text \<open>
  \<open>n.toString()\<close>. The only number the handlers print is the \<open>ContentLength\<close> of a
  head output, the size of an object in bytes: an integer below \<open>2^53\<close>, which a
  JavaScript number holds exactly and prints as its decimal digits. Such a number is a
  word of 53 bits.
\<close>

definition digit :: "nat \<Rightarrow> char" where
  "digit d =
     (if d = 0 then CHR ''0'' else if d = 1 then CHR ''1'' else if d = 2 then CHR ''2''
      else if d = 3 then CHR ''3'' else if d = 4 then CHR ''4'' else if d = 5 then CHR ''5''
      else if d = 6 then CHR ''6'' else if d = 7 then CHR ''7'' else if d = 8 then CHR ''8''
      else CHR ''9'')"

fun decimal :: "nat \<Rightarrow> string" where
  "decimal n = (if n < 10 then [digit n] else decimal (n div 10) @ [digit (n mod 10)])"

declare decimal.simps [simp del]

definition toString :: "53 word \<Rightarrow> string" where
  "toString n = decimal (unat n)"

section \<open>Regular expressions of the form \<open>/^[...]{lo,hi}$/\<close>\<close>

text \<open>
  The atoms of a character class as they are written in the source: the class escape
  \<open>\w\<close>, an escaped character such as \<open>\-\<close> or \<open>\.\<close>, and a plain character.
\<close>

datatype class_atom = ClassEscape_w | IdentityEscape char | ClassChar char

fun atom_matches :: "class_atom \<Rightarrow> code_unit \<Rightarrow> bool" where
  "atom_matches ClassEscape_w u =
     ((cu CHR ''A'' \<le> u \<and> u \<le> cu CHR ''Z'') \<or> (cu CHR ''a'' \<le> u \<and> u \<le> cu CHR ''z'') \<or>
      (cu CHR ''0'' \<le> u \<and> u \<le> cu CHR ''9'') \<or> u = cu CHR ''_'')"
| "atom_matches (IdentityEscape c) u = (u = cu c)"
| "atom_matches (ClassChar c) u = (u = cu c)"

definition class_matches :: "class_atom list \<Rightarrow> code_unit \<Rightarrow> bool" where
  "class_matches atoms u = list_ex (\<lambda>a. atom_matches a u) atoms"

text \<open>
  \<open>/^[atoms]{lo,hi}$/.test(s)\<close>, without flags: the whole string consists of between
  \<open>lo\<close> and \<open>hi\<close> code units of the class.
\<close>

definition regex_test :: "class_atom list \<Rightarrow> nat \<Rightarrow> nat \<Rightarrow> jsstring \<Rightarrow> bool" where
  "regex_test atoms lo hi s =
     (lo \<le> length s \<and> length s \<le> hi \<and> list_all (class_matches atoms) s)"

section \<open>Filename validation and extension classification\<close>

text \<open>\<open>validateFilename\<close> of \<open>src/index.ts\<close>, with the regular expression \<open>/^[\w\-.]{1,256}$/\<close>.\<close>

definition validateFilename :: "jsstring \<Rightarrow> bool" where
  "validateFilename filename =
     (regex_test [ClassEscape_w, IdentityEscape CHR ''-'', ClassChar CHR ''.''] 1 256 filename \<and>
      \<not> includes_js filename (js ''..'') \<and>
      length (split filename (cu CHR ''.'')) \<le> 10)"

text \<open>
  \<open>validateFilename\<close> of \<open>part_000\<close>, the variant without a cache; its text is that of
  \<open>src/index.ts\<close>.
\<close>

definition validateFilename_part_000 :: "jsstring \<Rightarrow> bool" where
  "validateFilename_part_000 filename =
     (regex_test [ClassEscape_w, IdentityEscape CHR ''-'', ClassChar CHR ''.''] 1 256 filename \<and>
      \<not> includes_js filename (js ''..'') \<and>
      length (split filename (cu CHR ''.'')) \<le> 10)"

text \<open>
  \<open>validateFilename\<close> of \<open>part_001\<close>, the variant on the Bun client, with the regular
  expression \<open>/^[\w\-\.]{1,256}$/\<close>: the dot is escaped.
\<close>

definition validateFilename_part_001 :: "jsstring \<Rightarrow> bool" where
  "validateFilename_part_001 filename =
     (regex_test [ClassEscape_w, IdentityEscape CHR ''-'', IdentityEscape CHR ''.''] 1 256 filename \<and>
      \<not> includes_js filename (js ''..'') \<and>
      length (split filename (cu CHR ''.'')) \<le> 10)"

definition ALLOWED_EXTENSIONS :: "jsstring list" where
  "ALLOWED_EXTENSIONS = [js ''.jpg'', js ''.jpeg'', js ''.png'', js ''.gif'', js ''.webp'']"

definition CONTENT_TYPES :: "(jsstring \<times> string) list" where
  "CONTENT_TYPES =
     [(js ''.jpg'', ''image/jpeg''),
      (js ''.jpeg'', ''image/jpeg''),
      (js ''.png'', ''image/png''),
      (js ''.gif'', ''image/gif''),
      (js ''.webp'', ''image/webp'')]"

text \<open>
  The three files declare the same \<open>ALLOWED_EXTENSIONS\<close> and \<open>CONTENT_TYPES\<close> and compute
  the extension by the same expression,
  \<open>filename.slice(filename.lastIndexOf('.')).toLowerCase()\<close>.
\<close>

definition extension :: "jsstring \<Rightarrow> jsstring" where
  "extension filename = toLowerCase (slice_js filename (lastIndexOf filename (cu CHR ''.'')))"

section \<open>Responses and headers\<close>

text \<open>
  The handlers build a response in three ways: \<open>c.text(text, status)\<close>,
  \<open>c.newResponse(body, status, headers)\<close>, where the value of a header may be
  \<open>undefined\<close> (\<open>None\<close>), and \<open>new Response(body, {status, headers})\<close>. A response
  is the constructor call with its arguments; the body of a stream is opaque.
\<close>

datatype 'b response =
    Text string nat
  | NewResponse 'b nat "(string \<times> string option) list"
  | Response 'b nat "(string \<times> string) list"

text \<open>
  \<open>c.newResponse(body, status, headers)\<close> of the framework sets a header whose value is
  a string and iterates over any other value; \<open>undefined\<close> is not iterable, and the
  call throws a \<open>TypeError\<close>. A rejected promise or a thrown exception is \<open>Inl\<close> of
  the error; the handlers read only the name of an error.
\<close>

datatype js_error = JsError (error_name: string)

definition c_newResponse ::
  "'b \<Rightarrow> nat \<Rightarrow> (string \<times> string option) list \<Rightarrow> js_error + 'b response" where
  "c_newResponse body st hs =
     (if list_ex (\<lambda>(k, v). v = None) hs then Inl (JsError ''TypeError'')
      else Inr (NewResponse body st hs))"

fun status :: "'b response \<Rightarrow> nat" where
  "status (Text text st) = st"
| "status (NewResponse body st hs) = st"
| "status (Response body st hs) = st"

text \<open>The header entries that the handler gives a response as strings.\<close>

definition defined_entries :: "(string \<times> string option) list \<Rightarrow> (string \<times> string) list" where
  "defined_entries hs = concat (map (\<lambda>(k, v). case v of None \<Rightarrow> [] | Some s \<Rightarrow> [(k, s)]) hs)"

fun supplied_headers :: "'b response \<Rightarrow> (string \<times> string) list" where
  "supplied_headers (Text text st) = []"
| "supplied_headers (NewResponse body st hs) = defined_entries hs"
| "supplied_headers (Response body st hs) = hs"

text \<open>
  Header names are case-insensitive: a \<open>Headers\<close> object keeps them in lower case, and
  \<open>get\<close> joins the values given under one name with a comma and a space.
\<close>

definition lower_char :: "char \<Rightarrow> char" where
  "lower_char c =
     (case map_of (zip ''ABCDEFGHIJKLMNOPQRSTUVWXYZ'' ''abcdefghijklmnopqrstuvwxyz'') c of
        Some l \<Rightarrow> l
      | None \<Rightarrow> c)"

definition lower :: "string \<Rightarrow> string" where
  "lower s = map lower_char s"

fun join :: "string list \<Rightarrow> string" where
  "join [] = []"
| "join [v] = v"
| "join (v # w # vs) = v @ '', '' @ join (w # vs)"

definition entries_get :: "string \<Rightarrow> (string \<times> string) list \<Rightarrow> string option" where
  "entries_get name hs =
     (case map snd (filter (\<lambda>(k, v). lower k = lower name) hs) of
        [] \<Rightarrow> None
      | v # vs \<Rightarrow> Some (join (v # vs)))"

definition header_get :: "string \<Rightarrow> 'b response \<Rightarrow> string option" where
  "header_get name r = entries_get name (supplied_headers r)"

text \<open>
  \<open>Object.fromEntries(entries)\<close>: an object is a list of properties with distinct keys;
  a later entry replaces the value of an earlier one of the same key.
\<close>

definition fromEntries :: "(string \<times> string) list \<Rightarrow> (string \<times> string) list" where
  "fromEntries entries = fold (\<lambda>(k, v) obj. AList.update k v obj) entries []"

section \<open>The object store and the cache\<close>

record head_output =
  ETag :: "string option"
  ContentLength :: "53 word option"

text \<open>
  \<open>s3.send(new HeadObjectCommand({Key}))\<close> and \<open>s3.send(new GetObjectCommand({Key}))\<close>;
  of the output of the second the handlers use the \<open>Body\<close> only.
\<close>

record 'b s3_client =
  send_head :: "jsstring \<Rightarrow> js_error + head_output"
  send_get :: "jsstring \<Rightarrow> js_error + 'b"

text \<open>
  A cached response, as \<open>cache.match\<close> returns it: its body, and the entries of its
  \<open>Headers\<close> object in iteration order.
\<close>

type_synonym 'b cached = "'b \<times> (string \<times> string) list"

text \<open>The Bun client: \<open>s3.file(key)\<close> with \<open>stat()\<close>, \<open>exists()\<close> and \<open>stream()\<close>.\<close>

record s3_stats =
  etag :: string

record 'b s3_file =
  file_stat :: "js_error + s3_stats"
  file_exists :: "js_error + bool"
  file_stream :: 'b

record request =
  url :: string
  filename :: jsstring

text \<open>The calls a handler makes to the store and to the cache, in the order it makes them.\<close>

datatype event = S3Head jsstring | S3Get jsstring | CacheMatch string | CachePut string

section \<open>The handlers of \<open>GET /images/:filename\<close>\<close>

text \<open>
  The \<open>catch\<close> block of \<open>src/index.ts\<close> and of \<open>part_000\<close> (the log line is not
  modelled).
\<close>

definition catch_error :: "js_error \<Rightarrow> 'b response" where
  "catch_error error =
     (if error_name error = ''NotFound'' then Text ''Image not found'' 404
      else Text ''Internal Server Error'' 500)"

text \<open>\<open>tag.replace(/"/g, '')\<close>\<close>

definition strip_quotes :: "string \<Rightarrow> string" where
  "strip_quotes tag = filter (\<lambda>c. c \<noteq> CHR 0x22) tag"

text \<open>The response to a cache hit in \<open>src/index.ts\<close>.\<close>

definition hit_response :: "'b cached \<Rightarrow> 'b response" where
  "hit_response cachedResponse =
     Response (fst cachedResponse) 200
       (AList.update ''x-cache-status'' ''HIT'' (fromEntries (snd cachedResponse)))"

text \<open>
  The handler of \<open>src/index.ts\<close>. It returns the response and the calls it made.
  Every call from the head call to \<open>c.newResponse\<close> stands in the \<open>try\<close> block. The
  write to the cache is handed to \<open>waitUntil\<close>: the handler does not wait for it and
  does not see its outcome.
\<close>

definition handler ::
  "'b s3_client \<Rightarrow> (string \<Rightarrow> js_error + 'b cached option) \<Rightarrow> request \<Rightarrow>
     'b response \<times> event list" where
  "handler s3 cache_match req =
     (let filename = filename req; cacheKey = url req in
      if \<not> validateFilename filename then (Text ''Invalid filename format'' 400, [])
      else
        let ext = extension filename in
        if ext \<notin> set ALLOWED_EXTENSIONS then (Text ''Unsupported file type'' 415, [])
        else
          (case send_head s3 filename of
             Inl error \<Rightarrow> (catch_error error, [S3Head filename])
           | Inr headResponse \<Rightarrow>
               (case cache_match cacheKey of
                  Inl error \<Rightarrow> (catch_error error, [S3Head filename, CacheMatch cacheKey])
                | Inr (Some cachedResponse) \<Rightarrow>
                    (hit_response cachedResponse, [S3Head filename, CacheMatch cacheKey])
                | Inr None \<Rightarrow>
                    (case send_get s3 filename of
                       Inl error \<Rightarrow>
                         (catch_error error,
                          [S3Head filename, CacheMatch cacheKey, S3Get filename])
                     | Inr body \<Rightarrow>
                         (case c_newResponse body 200
                                 [(''Content-Type'', map_of CONTENT_TYPES ext),
                                  (''Cache-Control'', Some ''public, max-age=604800''),
                                  (''ETag'', map_option strip_quotes (ETag headResponse)),
                                  (''Content-Length'',
                                   map_option toString (ContentLength headResponse)),
                                  (''X-Content-Type-Options'', Some ''nosniff''),
                                  (''X-Cache-Status'', Some ''MISS'')] of
                            Inl error \<Rightarrow>
                              (catch_error error,
                               [S3Head filename, CacheMatch cacheKey, S3Get filename])
                          | Inr newResponse \<Rightarrow>
                              (newResponse,
                               [S3Head filename, CacheMatch cacheKey, S3Get filename,
                                CachePut cacheKey]))))))"

text \<open>The handler of \<open>part_000\<close>: the same store calls, no cache.\<close>

definition handler_part_000 :: "'b s3_client \<Rightarrow> request \<Rightarrow> 'b response" where
  "handler_part_000 s3 req =
     (let filename = filename req in
      if \<not> validateFilename_part_000 filename then Text ''Invalid filename format'' 400
      else
        let ext = extension filename in
        if ext \<notin> set ALLOWED_EXTENSIONS then Text ''Unsupported file type'' 415
        else
          (case send_head s3 filename of
             Inl error \<Rightarrow> catch_error error
           | Inr headResponse \<Rightarrow>
               (case send_get s3 filename of
                  Inl error \<Rightarrow> catch_error error
                | Inr body \<Rightarrow>
                    (case c_newResponse body 200
                            [(''Content-Type'', map_of CONTENT_TYPES ext),
                             (''Cache-Control'', Some ''public, max-age=604800''),
                             (''ETag'', map_option strip_quotes (ETag headResponse)),
                             (''Content-Length'',
                              map_option toString (ContentLength headResponse)),
                             (''X-Content-Type-Options'', Some ''nosniff'')] of
                       Inl error \<Rightarrow> catch_error error
                     | Inr newResponse \<Rightarrow> newResponse))))"

text \<open>
  The handler of \<open>part_001\<close>. \<open>Promise.all([file.stat(), file.exists()])\<close> is rejected
  as soon as one of the two promises is; the \<open>catch\<close> block of this file answers 500 for
  every error.
\<close>

definition handler_part_001 :: "(jsstring \<Rightarrow> 'b s3_file) \<Rightarrow> request \<Rightarrow> 'b response" where
  "handler_part_001 s3_file req =
     (let filename = filename req in
      if \<not> validateFilename_part_001 filename then Text ''Invalid filename format'' 400
      else
        let ext = extension filename in
        if ext \<notin> set ALLOWED_EXTENSIONS then Text ''Unsupported file type'' 415
        else
          let file = s3_file filename in
          (case (file_stat file, file_exists file) of
             (Inr stat, Inr exists) \<Rightarrow>
               if \<not> exists then Text ''Image not found'' 404
               else
                 (case c_newResponse (file_stream file) 200
                         [(''Content-Type'', map_of CONTENT_TYPES ext),
                          (''Cache-Control'', Some ''public, max-age=604800''),
                          (''ETag'', Some (etag stat)),
                          (''X-Content-Type-Options'', Some ''nosniff'')] of
                    Inl error \<Rightarrow> Text ''Internal Server Error'' 500
                  | Inr newResponse \<Rightarrow> newResponse)
           | _ \<Rightarrow> Text ''Internal Server Error'' 500))"

section \<open>The cache across requests\<close>

text \<open>
  The cache maps a cache key (the URL of the request) to the response stored under it.
  For one request the cache either serves what it holds, or has evicted the entry of the
  key, or fails: \<open>cache.match\<close> throws.
\<close>

type_synonym 'b cache = "string \<Rightarrow> 'b cached option"

datatype cache_mode = Serving | Evicted | Failing js_error

text \<open>
  What \<open>cache.put(cacheKey, newResponse.clone())\<close> stores: the body and the headers of
  the response. The entries of a \<open>Headers\<close> object have their names in lower case and
  come sorted by name.
\<close>

fun cached_copy :: "'b response \<Rightarrow> 'b cached option" where
  "cached_copy (NewResponse body st hs) =
     Some (body, sort_key fst (map (\<lambda>(k, v). (lower k, v)) (defined_entries hs)))"
| "cached_copy (Text text st) = None"
| "cached_copy (Response body st hs) = None"

text \<open>
  One request against the cache: the response, and the cache after the request. When
  \<open>put_ok\<close> is false the write fails; nothing reports the failure to the handler.
\<close>

definition serve ::
  "'b s3_client \<Rightarrow> cache_mode \<Rightarrow> bool \<Rightarrow> 'b cache \<Rightarrow> request \<Rightarrow> 'b response \<times> 'b cache" where
  "serve s3 mode put_ok cache req =
     (let held = (if mode = Evicted then cache(url req := None) else cache);
          cache_match = (\<lambda>key. case mode of Failing error \<Rightarrow> Inl error | _ \<Rightarrow> Inr (held key));
          (response, calls) = handler s3 cache_match req
      in (response,
          if CachePut (url req) \<in> set calls \<and> put_ok
          then (case cached_copy response of
                  Some entry \<Rightarrow> held(url req \<mapsto> entry)
                | None \<Rightarrow> held)
          else held))"

text \<open>A sequence of requests, each with the store and the cache behaviour it meets.\<close>

fun run ::
  "'b cache \<Rightarrow> ('b s3_client \<times> cache_mode \<times> bool \<times> request) list \<Rightarrow>
     (request \<times> 'b response) list" where
  "run cache [] = []"
| "run cache ((s3, mode, put_ok, req) # rest) =
     (let (response, cache') = serve s3 mode put_ok cache req
      in (req, response) # run cache' rest)"


section \<open>Scenarios\<close>

text \<open>
  The scenario of the specification: the object \<open>photo.jpg\<close> exists, has 12345 bytes and
  the tag \<open>"abc123"\<close>; no other key exists. The body of a response is a string here.
\<close>

definition photo_head :: head_output where
  "photo_head = \<lparr>ETag = Some ([CHR 0x22] @ ''abc123'' @ [CHR 0x22]), ContentLength = Some 12345\<rparr>"

definition photo_store :: "string s3_client" where
  "photo_store =
     \<lparr>send_head = (\<lambda>key. if key = js ''photo.jpg'' then Inr photo_head
                             else Inl (JsError ''NotFound'')),
      send_get = (\<lambda>key. if key = js ''photo.jpg'' then Inr ''bytes of photo.jpg''
                            else Inl (JsError ''NoSuchKey''))\<rparr>"

definition request_for :: "string \<Rightarrow> request" where
  "request_for name = \<lparr>url = ''https://img.example/images/'' @ name, filename = js name\<rparr>"

definition no_cache_entry :: "string \<Rightarrow> js_error + string cached option" where
  "no_cache_entry key = Inr None"

definition photo_cached :: "string cached" where
  "photo_cached =
     (''bytes of photo.jpg'',
      [(''cache-control'', ''public, max-age=604800''),
       (''content-length'', ''12345''),
       (''content-type'', ''image/jpeg''),
       (''etag'', ''abc123''),
       (''x-cache-status'', ''MISS''),
       (''x-content-type-options'', ''nosniff'')])"

text \<open>The same bucket seen through the Bun client; \<open>stat()\<close> of a missing key is rejected.\<close>

definition photo_bucket :: "jsstring \<Rightarrow> string s3_file" where
  "photo_bucket key =
     (if key = js ''photo.jpg''
      then \<lparr>file_stat = Inr \<lparr>etag = [CHR 0x22] @ ''abc123'' @ [CHR 0x22]\<rparr>,
            file_exists = Inr True,
            file_stream = ''bytes of photo.jpg''\<rparr>
      else \<lparr>file_stat = Inl (JsError ''S3Error''),
            file_exists = Inr False,
            file_stream = []\<rparr>)"

definition full_store :: "string s3_client" where
  "full_store = \<lparr>send_head = (\<lambda>key. Inr photo_head), send_get = (\<lambda>key. Inr ''bytes'')\<rparr>"

section \<open>The invariant of the cache\<close>

text \<open>
  Every entry of the cache has the headers of a \<open>Headers\<close> object (names in lower case,
  one entry for each name) and a content type of the table.
\<close>

definition cache_invar :: "'b cache \<Rightarrow> bool" where
  "cache_invar cache =
     (\<forall>key body hs. cache key = Some (body, hs) \<longrightarrow>
        distinct (map fst hs) \<and> (\<forall>k \<in> fst ` set hs. lower k = k) \<and>
        (\<exists>t \<in> {''image/jpeg'', ''image/png'', ''image/gif'', ''image/webp''}.
           map_of hs ''content-type'' = Some t))"

section \<open>Strings: facts\<close>

lemma startsWith_iff: "startsWith s t \<longleftrightarrow> (\<exists>q. s = t @ q)"
  by (induction s t rule: startsWith.induct) auto

lemma includes_js_iff: "includes_js s t \<longleftrightarrow> (\<exists>p q. s = p @ t @ q)"
proof (induction s)
  case Nil
  then show ?case by auto
next
  case (Cons c cs)
  show ?case
  proof
    assume "includes_js (c # cs) t"
    then consider "startsWith (c # cs) t" | "includes_js cs t" by auto
    then show "\<exists>p q. c # cs = p @ t @ q"
    proof cases
      case 1
      then obtain q where "c # cs = t @ q" by (auto simp: startsWith_iff)
      then have "c # cs = [] @ t @ q" by simp
      then show ?thesis by blast
    next
      case 2
      then obtain p q where "cs = p @ t @ q" using Cons.IH by auto
      then have "c # cs = (c # p) @ t @ q" by simp
      then show ?thesis by blast
    qed
  next
    assume "\<exists>p q. c # cs = p @ t @ q"
    then obtain p q where pq: "c # cs = p @ t @ q" by auto
    show "includes_js (c # cs) t"
    proof (cases p)
      case Nil
      with pq have "startsWith (c # cs) t" by (auto simp: startsWith_iff)
      then show ?thesis by simp
    next
      case (Cons a p')
      with pq have "cs = p' @ t @ q" by simp
      then have "includes_js cs t" using Cons.IH by blast
      then show ?thesis by simp
    qed
  qed
qed

lemma split_not_Nil: "split s c \<noteq> []"
  by (induction s) (auto split: list.splits)

lemma length_split: "length (split s c) = Suc (length (filter (\<lambda>x. x = c) s))"
  by (induction s) (auto split: list.splits simp: split_not_Nil)

lemma lastIndexOf_from_absent: "c \<notin> set s \<Longrightarrow> lastIndexOf_from s c i found = found"
  by (induction s arbitrary: i found) auto

lemma lastIndexOf_absent: "c \<notin> set s \<Longrightarrow> lastIndexOf s c = - 1"
  by (simp add: lastIndexOf_def lastIndexOf_from_absent)

lemma slice_js_minus_one: "s \<noteq> [] \<Longrightarrow> slice_js s (- 1) = [last s]"
proof -
  assume "s \<noteq> []"
  then obtain xs x where s: "s = xs @ [x]" by (metis rev_exhaust)
  then show ?thesis by (simp add: slice_js_def Let_def)
qed

lemma class_matches_variants:
  "class_matches [ClassEscape_w, IdentityEscape CHR ''-'', IdentityEscape CHR ''.''] =
   class_matches [ClassEscape_w, IdentityEscape CHR ''-'', ClassChar CHR ''.'']"
  by (rule ext) (simp add: class_matches_def)

lemma validateFilename_part_000_eq: "validateFilename_part_000 f = validateFilename f"
  by (simp add: validateFilename_part_000_def validateFilename_def)

lemma validateFilename_part_001_eq: "validateFilename_part_001 f = validateFilename f"
  by (simp add: validateFilename_part_001_def validateFilename_def regex_test_def
      class_matches_variants)

lemma allowed_starts_with_dot: "e \<in> set ALLOWED_EXTENSIONS \<Longrightarrow> \<exists>t. e = cu CHR ''.'' # t"
  by (auto simp: ALLOWED_EXTENSIONS_def js_def)

lemma toLowerCase_unit_dot: "toLowerCase_unit u = cu CHR ''.'' \<Longrightarrow> u = cu CHR ''.''"
  by (simp add: toLowerCase_unit_def cu_def split: if_splits)

section \<open>The handlers: rejected requests\<close>

lemma handler_invalid:
  "\<not> validateFilename (filename req) \<Longrightarrow>
   handler s3 cache_match req = (Text ''Invalid filename format'' 400, [])"
  by (simp add: handler_def Let_def)

lemma handler_part_000_invalid:
  "\<not> validateFilename (filename req) \<Longrightarrow>
   handler_part_000 s3 req = Text ''Invalid filename format'' 400"
  by (simp add: handler_part_000_def Let_def validateFilename_part_000_eq)

lemma handler_part_001_invalid:
  "\<not> validateFilename (filename req) \<Longrightarrow>
   handler_part_001 s3_file req = Text ''Invalid filename format'' 400"
  by (simp add: handler_part_001_def Let_def validateFilename_part_001_eq)

lemma handler_unsupported:
  "validateFilename (filename req) \<Longrightarrow> extension (filename req) \<notin> set ALLOWED_EXTENSIONS \<Longrightarrow>
   handler s3 cache_match req = (Text ''Unsupported file type'' 415, [])"
  by (simp add: handler_def Let_def)

lemma handler_part_000_unsupported:
  "validateFilename (filename req) \<Longrightarrow> extension (filename req) \<notin> set ALLOWED_EXTENSIONS \<Longrightarrow>
   handler_part_000 s3 req = Text ''Unsupported file type'' 415"
  by (simp add: handler_part_000_def Let_def validateFilename_part_000_eq)

lemma handler_part_001_unsupported:
  "validateFilename (filename req) \<Longrightarrow> extension (filename req) \<notin> set ALLOWED_EXTENSIONS \<Longrightarrow>
   handler_part_001 s3_file req = Text ''Unsupported file type'' 415"
  by (simp add: handler_part_001_def Let_def validateFilename_part_001_eq)

lemma class_matches_ranges:
  "class_matches [ClassEscape_w, IdentityEscape CHR ''-'', ClassChar CHR ''.''] u \<longleftrightarrow>
   (cu CHR ''A'' \<le> u \<and> u \<le> cu CHR ''Z'') \<or> (cu CHR ''a'' \<le> u \<and> u \<le> cu CHR ''z'') \<or>
   (cu CHR ''0'' \<le> u \<and> u \<le> cu CHR ''9'') \<or> u = cu CHR ''_'' \<or> u = cu CHR ''-'' \<or>
   u = cu CHR ''.''"
  by (auto simp: class_matches_def)

lemma validateFilename_nonempty: "validateFilename f \<Longrightarrow> f \<noteq> []"
  by (auto simp: validateFilename_def regex_test_def)

lemma extension_dotless:
  assumes "f \<noteq> []" and "cu CHR ''.'' \<notin> set f"
  shows "extension f = toLowerCase [last f]"
  using assms by (simp add: extension_def lastIndexOf_absent slice_js_minus_one)

lemma extension_dotless_not_allowed:
  assumes "f \<noteq> []" and "cu CHR ''.'' \<notin> set f"
  shows "extension f \<notin> set ALLOWED_EXTENSIONS"
proof
  assume "extension f \<in> set ALLOWED_EXTENSIONS"
  then obtain t where "extension f = cu CHR ''.'' # t"
    using allowed_starts_with_dot by blast
  then have "toLowerCase_unit (last f) = cu CHR ''.''"
    using assms by (simp add: extension_dotless toLowerCase_def)
  then have "last f = cu CHR ''.''" by (rule toLowerCase_unit_dot)
  moreover have "last f \<in> set f" using assms(1) by simp
  ultimately show False using assms(2) by simp
qed

section \<open>The validator\<close>

text \<open>
  C10. The filename validators of the three source files are extensionally equal: on
  every input string each of them returns the same boolean.
\<close>

theorem validateFilename_variants_equal:
  "validateFilename_part_000 f = validateFilename f \<and>
   validateFilename_part_001 f = validateFilename f"
  by (simp add: validateFilename_part_000_def validateFilename_part_001_def
      validateFilename_def regex_test_def class_matches_variants)

theorem validateFilename_variants_equal_witness:
  "validateFilename_part_000 (js ''photo.jpg'') = validateFilename (js ''photo.jpg'') \<and>
   validateFilename_part_001 (js ''photo.jpg'') = validateFilename (js ''photo.jpg'') \<and>
   validateFilename (js ''photo.jpg'')"
  using validateFilename_variants_equal [of "js ''photo.jpg''"]
  by (simp add: validateFilename_def regex_test_def class_matches_def js_def cu_def)

text \<open>
  C8. Every input string that contains the substring \<open>..\<close>, or is empty, or is longer
  than 256 characters, or contains a character outside \<open>[A-Za-z0-9_\-.]\<close>, is rejected
  by the validator, and the request is answered 400, whatever its extension.
\<close>

theorem validateFilename_rejects:
  assumes "(\<exists>p q. filename req = p @ js ''..'' @ q) \<or> filename req = [] \<or>
           256 < length (filename req) \<or>
           (\<exists>u \<in> set (filename req).
              \<not> ((cu CHR ''A'' \<le> u \<and> u \<le> cu CHR ''Z'') \<or> (cu CHR ''a'' \<le> u \<and> u \<le> cu CHR ''z'') \<or>
                 (cu CHR ''0'' \<le> u \<and> u \<le> cu CHR ''9'') \<or> u = cu CHR ''_'' \<or> u = cu CHR ''-'' \<or>
                 u = cu CHR ''.''))"
  shows "\<not> validateFilename (filename req) \<and>
         \<not> validateFilename_part_000 (filename req) \<and>
         \<not> validateFilename_part_001 (filename req) \<and>
         handler s3 cache_match req = (Text ''Invalid filename format'' 400, []) \<and>
         handler_part_000 s3 req = Text ''Invalid filename format'' 400 \<and>
         handler_part_001 s3_file req = Text ''Invalid filename format'' 400"
proof -
  have "\<not> validateFilename (filename req)"
    using assms
  proof (elim disjE)
    assume "\<exists>p q. filename req = p @ js ''..'' @ q"
    then have "includes_js (filename req) (js ''..'')" by (simp add: includes_js_iff)
    then show ?thesis by (simp add: validateFilename_def)
  next
    assume "filename req = []"
    then show ?thesis by (simp add: validateFilename_def regex_test_def)
  next
    assume "256 < length (filename req)"
    then show ?thesis by (simp add: validateFilename_def regex_test_def)
  next
    assume "\<exists>u \<in> set (filename req).
              \<not> ((cu CHR ''A'' \<le> u \<and> u \<le> cu CHR ''Z'') \<or> (cu CHR ''a'' \<le> u \<and> u \<le> cu CHR ''z'') \<or>
                 (cu CHR ''0'' \<le> u \<and> u \<le> cu CHR ''9'') \<or> u = cu CHR ''_'' \<or> u = cu CHR ''-'' \<or>
                 u = cu CHR ''.'')"
    then obtain u where "u \<in> set (filename req)"
      and "\<not> class_matches [ClassEscape_w, IdentityEscape CHR ''-'', ClassChar CHR ''.''] u"
      unfolding class_matches_ranges by blast
    then have "\<not> list_all (class_matches [ClassEscape_w, IdentityEscape CHR ''-'', ClassChar CHR ''.''])
                 (filename req)"
      by (auto simp: list_all_iff)
    then show ?thesis by (simp add: validateFilename_def regex_test_def)
  qed
  then show ?thesis
    by (simp add: validateFilename_part_000_eq validateFilename_part_001_eq handler_invalid
        handler_part_000_invalid handler_part_001_invalid)
qed

theorem validateFilename_rejects_witness:
  "filename (request_for ''../secret.png'') = [] @ js ''..'' @ js ''/secret.png'' \<and>
   \<not> validateFilename (js ''../secret.png'') \<and>
   handler photo_store no_cache_entry (request_for ''../secret.png'') =
     (Text ''Invalid filename format'' 400, []) \<and>
   handler_part_000 photo_store (request_for ''../secret.png'') =
     Text ''Invalid filename format'' 400 \<and>
   handler_part_001 photo_bucket (request_for ''../secret.png'') =
     Text ''Invalid filename format'' 400"
proof -
  have eq: "filename (request_for ''../secret.png'') = [] @ js ''..'' @ js ''/secret.png''"
    by (simp add: request_for_def js_def)
  then have "\<exists>p q. filename (request_for ''../secret.png'') = p @ js ''..'' @ q"
    by blast
  then show ?thesis
    using eq validateFilename_rejects [of "request_for ''../secret.png''" photo_store no_cache_entry photo_bucket]
    by (simp add: request_for_def)
qed

text \<open>
  C4 (amended). Every filename that splits on \<open>.\<close> into 11 or more tokens is rejected by
  the validator and the request is answered 400, whatever its characters and length. A
  filename of exactly 10 tokens passes this check.
\<close>

theorem eleven_tokens_rejected:
  assumes "11 \<le> length (split (filename req) (cu CHR ''.''))"
  shows "\<not> validateFilename (filename req) \<and>
         \<not> validateFilename_part_000 (filename req) \<and>
         \<not> validateFilename_part_001 (filename req) \<and>
         handler s3 cache_match req = (Text ''Invalid filename format'' 400, []) \<and>
         handler_part_000 s3 req = Text ''Invalid filename format'' 400 \<and>
         handler_part_001 s3_file req = Text ''Invalid filename format'' 400"
proof -
  have "\<not> validateFilename (filename req)"
    using assms by (simp add: validateFilename_def)
  then show ?thesis
    by (simp add: validateFilename_part_000_eq validateFilename_part_001_eq handler_invalid
        handler_part_000_invalid handler_part_001_invalid)
qed

theorem eleven_tokens_rejected_witness:
  "length (split (filename (request_for ''a.b.c.d.e.f.g.h.i.j.png'')) (cu CHR ''.'')) = 11 \<and>
   \<not> validateFilename (js ''a.b.c.d.e.f.g.h.i.j.png'') \<and>
   handler full_store no_cache_entry (request_for ''a.b.c.d.e.f.g.h.i.j.png'') =
     (Text ''Invalid filename format'' 400, [])"
proof -
  have len: "length (split (filename (request_for ''a.b.c.d.e.f.g.h.i.j.png'')) (cu CHR ''.'')) = 11"
    by (simp add: request_for_def js_def cu_def)
  then have "11 \<le> length (split (filename (request_for ''a.b.c.d.e.f.g.h.i.j.png'')) (cu CHR ''.''))"
    by simp
  from eleven_tokens_rejected [OF this, of full_store no_cache_entry photo_bucket] len
  show ?thesis by (simp add: request_for_def)
qed

theorem ten_tokens_accepted:
  "length (split (js ''a.b.c.d.e.f.g.h.i.png'') (cu CHR ''.'')) = 10 \<and>
   validateFilename (js ''a.b.c.d.e.f.g.h.i.png'') \<and>
   validateFilename_part_000 (js ''a.b.c.d.e.f.g.h.i.png'') \<and>
   validateFilename_part_001 (js ''a.b.c.d.e.f.g.h.i.png'') \<and>
   status (fst (handler full_store no_cache_entry (request_for ''a.b.c.d.e.f.g.h.i.png''))) = 200"
proof -
  have tokens: "length (split (js ''a.b.c.d.e.f.g.h.i.png'') (cu CHR ''.'')) = 10"
    by (simp add: js_def cu_def)
  have valid: "validateFilename (js ''a.b.c.d.e.f.g.h.i.png'')"
    by (simp add: validateFilename_def regex_test_def class_matches_def js_def cu_def)
  have ext: "extension (js ''a.b.c.d.e.f.g.h.i.png'') = js ''.png''"
    by (simp add: extension_def lastIndexOf_def slice_js_def toLowerCase_def
        toLowerCase_unit_def js_def cu_def)
  have allowed: "js ''.png'' \<in> set ALLOWED_EXTENSIONS"
    by (simp add: ALLOWED_EXTENSIONS_def)
  have ct: "map_of CONTENT_TYPES (js ''.png'') = Some ''image/png''"
    by (simp add: CONTENT_TYPES_def js_def cu_def)
  have "status (fst (handler full_store no_cache_entry (request_for ''a.b.c.d.e.f.g.h.i.png''))) = 200"
    using valid allowed
    by (simp add: handler_def Let_def request_for_def ext full_store_def no_cache_entry_def
        c_newResponse_def photo_head_def ct)
  with tokens valid show ?thesis
    by (simp add: validateFilename_part_000_eq validateFilename_part_001_eq)
qed

text \<open>
  C5 (amended). For every validated filename that contains no \<open>.\<close>, the classifier
  takes the last character of the filename, in lower case, as the extension (the whole
  string only when the filename has one character), does not find it in the allow-list,
  and the request is answered 415.
\<close>

theorem dotless_filename_unsupported:
  assumes "validateFilename (filename req)" and "cu CHR ''.'' \<notin> set (filename req)"
  shows "extension (filename req) = toLowerCase [last (filename req)] \<and>
         extension (filename req) \<notin> set ALLOWED_EXTENSIONS \<and>
         handler s3 cache_match req = (Text ''Unsupported file type'' 415, []) \<and>
         handler_part_000 s3 req = Text ''Unsupported file type'' 415 \<and>
         handler_part_001 s3_file req = Text ''Unsupported file type'' 415"
proof -
  have nonempty: "filename req \<noteq> []"
    using assms(1) by (rule validateFilename_nonempty)
  have "extension (filename req) \<notin> set ALLOWED_EXTENSIONS"
    using nonempty assms(2) by (rule extension_dotless_not_allowed)
  then show ?thesis
    using assms(1) nonempty assms(2)
    by (simp add: extension_dotless handler_unsupported handler_part_000_unsupported
        handler_part_001_unsupported)
qed

theorem dotless_filename_unsupported_witness:
  "validateFilename (filename (request_for ''photo'')) \<and>
   cu CHR ''.'' \<notin> set (filename (request_for ''photo'')) \<and>
   extension (js ''photo'') = js ''o'' \<and>
   handler photo_store no_cache_entry (request_for ''photo'') =
     (Text ''Unsupported file type'' 415, [])"
proof -
  have valid: "validateFilename (filename (request_for ''photo''))"
    by (simp add: request_for_def validateFilename_def regex_test_def class_matches_def
        js_def cu_def)
  have dotless: "cu CHR ''.'' \<notin> set (filename (request_for ''photo''))"
    by (simp add: request_for_def js_def cu_def)
  have last: "toLowerCase [last (js ''photo'')] = js ''o''"
    by (simp add: toLowerCase_def toLowerCase_unit_def js_def cu_def)
  from dotless_filename_unsupported [OF valid dotless, of photo_store no_cache_entry photo_bucket]
    valid dotless last
  show ?thesis by (simp add: request_for_def)
qed

theorem extension_not_whole_string:
  "validateFilename (js ''photo'') \<and> cu CHR ''.'' \<notin> set (js ''photo'') \<and>
   extension (js ''photo'') = js ''o'' \<and>
   extension (js ''photo'') \<noteq> toLowerCase (js ''photo'')"
  by (simp add: validateFilename_def regex_test_def class_matches_def extension_def
      lastIndexOf_def slice_js_def toLowerCase_def toLowerCase_unit_def js_def cu_def)

section \<open>The handler of \<open>src/index.ts\<close>: store and cache\<close>

lemma allowed_content_type:
  assumes "e \<in> set ALLOWED_EXTENSIONS"
  shows "\<exists>t. map_of CONTENT_TYPES e = Some t \<and>
           t \<in> {''image/jpeg'', ''image/png'', ''image/gif'', ''image/webp''}"
  using assms by (auto simp: ALLOWED_EXTENSIONS_def CONTENT_TYPES_def)

lemma handler_classified:
  assumes "validateFilename (filename req)"
    and "extension (filename req) \<in> set ALLOWED_EXTENSIONS"
  shows "handler s3 cache_match req =
     (case send_head s3 (filename req) of
        Inl error \<Rightarrow> (catch_error error, [S3Head (filename req)])
      | Inr headResponse \<Rightarrow>
          (case cache_match (url req) of
             Inl error \<Rightarrow> (catch_error error, [S3Head (filename req), CacheMatch (url req)])
           | Inr (Some cachedResponse) \<Rightarrow>
               (hit_response cachedResponse, [S3Head (filename req), CacheMatch (url req)])
           | Inr None \<Rightarrow>
               (case send_get s3 (filename req) of
                  Inl error \<Rightarrow>
                    (catch_error error,
                     [S3Head (filename req), CacheMatch (url req), S3Get (filename req)])
                | Inr body \<Rightarrow>
                    (case c_newResponse body 200
                            [(''Content-Type'', map_of CONTENT_TYPES (extension (filename req))),
                             (''Cache-Control'', Some ''public, max-age=604800''),
                             (''ETag'', map_option strip_quotes (ETag headResponse)),
                             (''Content-Length'',
                              map_option toString (ContentLength headResponse)),
                             (''X-Content-Type-Options'', Some ''nosniff''),
                             (''X-Cache-Status'', Some ''MISS'')] of
                       Inl error \<Rightarrow>
                         (catch_error error,
                          [S3Head (filename req), CacheMatch (url req), S3Get (filename req)])
                     | Inr newResponse \<Rightarrow>
                         (newResponse,
                          [S3Head (filename req), CacheMatch (url req), S3Get (filename req),
                           CachePut (url req)])))))"
  using assms by (simp add: handler_def Let_def)

lemma status_catch_error: "status (catch_error error) \<noteq> 200"
  by (simp add: catch_error_def)

lemma c_newResponse_fetched:
  "c_newResponse body 200
     [(''Content-Type'', Some t), (''Cache-Control'', Some c), (''ETag'', e),
      (''Content-Length'', l), (''X-Content-Type-Options'', Some n),
      (''X-Cache-Status'', Some m)] =
   (case (e, l) of
      (Some tag, Some len) \<Rightarrow>
        Inr (NewResponse body 200
               [(''Content-Type'', Some t), (''Cache-Control'', Some c), (''ETag'', Some tag),
                (''Content-Length'', Some len), (''X-Content-Type-Options'', Some n),
                (''X-Cache-Status'', Some m)])
    | _ \<Rightarrow> Inl (JsError ''TypeError''))"
  by (cases e; cases l) (simp_all add: c_newResponse_def)

text \<open>The miss: the head output, the body, and the response built from them.\<close>

lemma handler_miss:
  assumes "validateFilename (filename req)"
    and "extension (filename req) \<in> set ALLOWED_EXTENSIONS"
    and "send_head s3 (filename req) = Inr headResponse"
    and "cache_match (url req) = Inr None"
    and "send_get s3 (filename req) = Inr body"
  shows "handler s3 cache_match req =
     (case (ETag headResponse, ContentLength headResponse) of
        (Some tag, Some len) \<Rightarrow>
          (NewResponse body 200
             [(''Content-Type'', map_of CONTENT_TYPES (extension (filename req))),
              (''Cache-Control'', Some ''public, max-age=604800''),
              (''ETag'', Some (strip_quotes tag)),
              (''Content-Length'', Some (toString len)),
              (''X-Content-Type-Options'', Some ''nosniff''),
              (''X-Cache-Status'', Some ''MISS'')],
           [S3Head (filename req), CacheMatch (url req), S3Get (filename req),
            CachePut (url req)])
      | _ \<Rightarrow>
          (Text ''Internal Server Error'' 500,
           [S3Head (filename req), CacheMatch (url req), S3Get (filename req)]))"
proof -
  obtain t where t: "map_of CONTENT_TYPES (extension (filename req)) = Some t"
    using assms(2) allowed_content_type by blast
  show ?thesis
    using assms(3-5)
    by (simp add: handler_classified [OF assms(1,2)] t c_newResponse_fetched catch_error_def
        split: option.split)
qed

lemma photo_valid: "validateFilename (js ''photo.jpg'')"
  by (simp add: validateFilename_def regex_test_def class_matches_def js_def cu_def)

lemma photo_extension: "extension (js ''photo.jpg'') = js ''.jpg''"
  by (simp add: extension_def lastIndexOf_def slice_js_def toLowerCase_def
      toLowerCase_unit_def js_def cu_def)

lemma photo_allowed: "extension (js ''photo.jpg'') \<in> set ALLOWED_EXTENSIONS"
  by (simp add: photo_extension ALLOWED_EXTENSIONS_def)

lemma photo_content_type: "map_of CONTENT_TYPES (extension (js ''photo.jpg'')) = Some ''image/jpeg''"
  by (simp add: photo_extension CONTENT_TYPES_def)

lemma photo_request_fields:
  "filename (request_for ''photo.jpg'') = js ''photo.jpg''"
  "url (request_for ''photo.jpg'') = ''https://img.example/images/photo.jpg''"
  by (simp_all add: request_for_def)

lemma photo_length: "toString 12345 = ''12345''"
  by (simp add: toString_def decimal.simps digit_def)

lemma calls_shape:
  assumes "validateFilename (filename req)"
    and "extension (filename req) \<in> set ALLOWED_EXTENSIONS"
  shows "snd (handler s3 cache_match req) \<in>
     {[S3Head (filename req)],
      [S3Head (filename req), CacheMatch (url req)],
      [S3Head (filename req), CacheMatch (url req), S3Get (filename req)],
      [S3Head (filename req), CacheMatch (url req), S3Get (filename req), CachePut (url req)]}"
  by (simp add: handler_classified [OF assms] split: sum.split option.split)

text \<open>
  C1 (amended). For every request that passes validation and classification, the
  handler first issues the head call to the store. When the head call fails, it is the
  only call: the cache is looked up only after the head call has succeeded. The lookup
  is made before any get call, and a get call is issued only when the lookup has
  missed. When the lookup hits, the request is answered from the cached entry and no
  get call is issued: the calls of the request are the head call and the lookup.
\<close>

theorem head_then_cache_then_get:
  assumes "validateFilename (filename req)"
    and "extension (filename req) \<in> set ALLOWED_EXTENSIONS"
  shows "(\<forall>error. send_head s3 (filename req) = Inl error \<longrightarrow>
            snd (handler s3 cache_match req) = [S3Head (filename req)]) \<and>
         (\<forall>headResponse error.
            send_head s3 (filename req) = Inr headResponse \<and>
            cache_match (url req) = Inl error \<longrightarrow>
            snd (handler s3 cache_match req) = [S3Head (filename req), CacheMatch (url req)]) \<and>
         (\<forall>headResponse cachedResponse.
            send_head s3 (filename req) = Inr headResponse \<and>
            cache_match (url req) = Inr (Some cachedResponse) \<longrightarrow>
            handler s3 cache_match req =
              (hit_response cachedResponse, [S3Head (filename req), CacheMatch (url req)])) \<and>
         (\<forall>headResponse.
            send_head s3 (filename req) = Inr headResponse \<and>
            cache_match (url req) = Inr None \<longrightarrow>
            (status (fst (handler s3 cache_match req)) = 200 \<and>
             snd (handler s3 cache_match req) =
               [S3Head (filename req), CacheMatch (url req), S3Get (filename req),
                CachePut (url req)]) \<or>
            (status (fst (handler s3 cache_match req)) = 500 \<and>
             snd (handler s3 cache_match req) =
               [S3Head (filename req), CacheMatch (url req), S3Get (filename req)]) \<or>
            (status (fst (handler s3 cache_match req)) = 404 \<and>
             snd (handler s3 cache_match req) =
               [S3Head (filename req), CacheMatch (url req), S3Get (filename req)]))"
proof (intro conjI allI impI)
  fix error
  assume "send_head s3 (filename req) = Inl error"
  then show "snd (handler s3 cache_match req) = [S3Head (filename req)]"
    by (simp add: handler_classified [OF assms])
next
  fix headResponse error
  assume "send_head s3 (filename req) = Inr headResponse \<and> cache_match (url req) = Inl error"
  then show "snd (handler s3 cache_match req) = [S3Head (filename req), CacheMatch (url req)]"
    by (simp add: handler_classified [OF assms])
next
  fix headResponse cachedResponse
  assume "send_head s3 (filename req) = Inr headResponse \<and>
    cache_match (url req) = Inr (Some cachedResponse)"
  then show "handler s3 cache_match req =
      (hit_response cachedResponse, [S3Head (filename req), CacheMatch (url req)])"
    by (simp add: handler_classified [OF assms])
next
  fix headResponse
  assume a: "send_head s3 (filename req) = Inr headResponse \<and> cache_match (url req) = Inr None"
  show "(status (fst (handler s3 cache_match req)) = 200 \<and>
             snd (handler s3 cache_match req) =
               [S3Head (filename req), CacheMatch (url req), S3Get (filename req),
                CachePut (url req)]) \<or>
            (status (fst (handler s3 cache_match req)) = 500 \<and>
             snd (handler s3 cache_match req) =
               [S3Head (filename req), CacheMatch (url req), S3Get (filename req)]) \<or>
            (status (fst (handler s3 cache_match req)) = 404 \<and>
             snd (handler s3 cache_match req) =
               [S3Head (filename req), CacheMatch (url req), S3Get (filename req)])"
  proof (cases "send_get s3 (filename req)")
    case (Inl error)
    with a show ?thesis
      by (simp add: handler_classified [OF assms] catch_error_def)
  next
    case (Inr body)
    with a show ?thesis
      by (simp add: handler_miss [OF assms] split: option.split)
  qed
qed

theorem head_then_cache_then_get_witness:
  "validateFilename (filename (request_for ''photo.jpg'')) \<and>
   extension (filename (request_for ''photo.jpg'')) \<in> set ALLOWED_EXTENSIONS \<and>
   handler photo_store (\<lambda>key. Inr (Some photo_cached)) (request_for ''photo.jpg'') =
     (hit_response photo_cached,
      [S3Head (js ''photo.jpg''), CacheMatch ''https://img.example/images/photo.jpg''])"
proof -
  have valid: "validateFilename (filename (request_for ''photo.jpg''))"
    by (simp add: photo_request_fields photo_valid)
  have allowed: "extension (filename (request_for ''photo.jpg'')) \<in> set ALLOWED_EXTENSIONS"
    by (simp add: photo_request_fields photo_allowed)
  have head: "send_head photo_store (filename (request_for ''photo.jpg'')) = Inr photo_head"
    by (simp add: photo_request_fields photo_store_def)
  from head_then_cache_then_get [OF valid allowed, of photo_store "\<lambda>key. Inr (Some photo_cached)"]
    head valid allowed
  show ?thesis by (simp add: photo_request_fields)
qed

theorem head_precedes_cache_lookup:
  "validateFilename (filename (request_for ''photo.jpg'')) \<and>
   extension (filename (request_for ''photo.jpg'')) \<in> set ALLOWED_EXTENSIONS \<and>
   fst (handler photo_store (\<lambda>key. Inr (Some photo_cached)) (request_for ''photo.jpg'')) =
     hit_response photo_cached \<and>
   snd (handler photo_store (\<lambda>key. Inr (Some photo_cached)) (request_for ''photo.jpg'')) =
     [S3Head (js ''photo.jpg''), CacheMatch ''https://img.example/images/photo.jpg'']"
  by (simp add: handler_classified photo_request_fields photo_valid photo_allowed
      photo_store_def)

section \<open>Headers: facts\<close>

lemma update_fresh: "k \<notin> fst ` set al \<Longrightarrow> AList.update k v al = al @ [(k, v)]"
  by (induction al) auto

lemma fold_update_distinct:
  "distinct (map fst (acc @ es)) \<Longrightarrow>
   fold (\<lambda>(k, v) obj. AList.update k v obj) es acc = acc @ es"
proof (induction es arbitrary: acc)
  case Nil
  then show ?case by simp
next
  case (Cons e es)
  obtain k v where e: "e = (k, v)" by (cases e)
  from Cons.prems have fresh: "k \<notin> fst ` set acc" by (auto simp: e)
  from Cons.prems have "distinct (map fst ((acc @ [(k, v)]) @ es))" by (simp add: e)
  then have "fold (\<lambda>(k, v) obj. AList.update k v obj) es (acc @ [(k, v)]) = (acc @ [(k, v)]) @ es"
    by (rule Cons.IH)
  then show ?case by (simp add: e update_fresh [OF fresh])
qed

lemma fromEntries_distinct: "distinct (map fst hs) \<Longrightarrow> fromEntries hs = hs"
  using fold_update_distinct [of "[]" hs] by (simp add: fromEntries_def)

lemma filter_key_absent:
  "n \<notin> fst ` set hs \<Longrightarrow> filter (\<lambda>(k, v). k = n) hs = []"
  by (induction hs) auto

lemma values_of_distinct_key:
  "distinct (map fst hs) \<Longrightarrow>
   map snd (filter (\<lambda>(k, v). k = n) hs) = (case map_of hs n of None \<Rightarrow> [] | Some v \<Rightarrow> [v])"
proof (induction hs)
  case Nil
  then show ?case by simp
next
  case (Cons e hs)
  obtain k v where e: "e = (k, v)" by (cases e)
  show ?case
  proof (cases "k = n")
    case True
    with Cons.prems have "n \<notin> fst ` set hs" by (auto simp: e)
    then have "filter (\<lambda>(k, v). k = n) hs = []" by (rule filter_key_absent)
    with True show ?thesis by (simp add: e)
  next
    case False
    with Cons show ?thesis by (simp add: e)
  qed
qed

lemma entries_get_lower_distinct:
  assumes "distinct (map fst hs)" and "\<forall>k \<in> fst ` set hs. lower k = k"
  shows "entries_get name hs = map_of hs (lower name)"
proof -
  have "filter (\<lambda>(k, v). lower k = lower name) hs = filter (\<lambda>(k, v). k = lower name) hs"
    using assms(2) by (intro filter_cong) auto
  then show ?thesis
    using values_of_distinct_key [OF assms(1), of "lower name"]
    by (simp add: entries_get_def split: option.split)
qed

lemma lower_x_cache_status: "lower ''x-cache-status'' = ''x-cache-status''"
  by (simp add: lower_def lower_char_def)

lemma hit_headers:
  assumes "distinct (map fst hs)" and "\<forall>k \<in> fst ` set hs. lower k = k"
  shows "entries_get name (AList.update ''x-cache-status'' ''HIT'' (fromEntries hs)) =
     (if lower name = ''x-cache-status'' then Some ''HIT'' else entries_get name hs)"
proof -
  let ?hs = "AList.update ''x-cache-status'' ''HIT'' hs"
  have d: "distinct (map fst ?hs)"
    using assms(1) by (rule AList.distinct_update)
  have l: "\<forall>k \<in> fst ` set ?hs. lower k = k"
    using assms(2) by (auto simp: AList.dom_update lower_x_cache_status)
  have "entries_get name ?hs = map_of ?hs (lower name)"
    using d l by (rule entries_get_lower_distinct)
  also have "\<dots> = (if lower name = ''x-cache-status'' then Some ''HIT'' else map_of hs (lower name))"
    by (simp add: AList.update_conv')
  finally show ?thesis
    using assms by (simp add: fromEntries_distinct entries_get_lower_distinct)
qed

section \<open>The headers of a response fetched from the store\<close>

lemma lower_header_names:
  "lower ''Content-Type'' = ''content-type''"
  "lower ''Cache-Control'' = ''cache-control''"
  "lower ''ETag'' = ''etag''"
  "lower ''Content-Length'' = ''content-length''"
  "lower ''X-Content-Type-Options'' = ''x-content-type-options''"
  "lower ''X-Cache-Status'' = ''x-cache-status''"
  by (simp_all add: lower_def lower_char_def)

lemma entries_get_Cons:
  "entries_get name ((k, v) # hs) =
     (if lower k = lower name
      then Some (case entries_get name hs of None \<Rightarrow> v | Some w \<Rightarrow> v @ '', '' @ w)
      else entries_get name hs)"
  by (simp add: entries_get_def split: list.split)

lemma entries_get_Nil: "entries_get name [] = None"
  by (simp add: entries_get_def)

lemma defined_entries_simps:
  "defined_entries [] = []"
  "defined_entries ((k, None) # hs) = defined_entries hs"
  "defined_entries ((k, Some v) # hs) = (k, v) # defined_entries hs"
  by (simp_all add: defined_entries_def)

lemma fetched_headers:
  "header_get ''Content-Type''
     (NewResponse body 200
        [(''Content-Type'', Some t), (''Cache-Control'', Some c), (''ETag'', e),
         (''Content-Length'', l), (''X-Content-Type-Options'', Some n),
         (''X-Cache-Status'', Some m)]) = Some t"
  "header_get ''Cache-Control''
     (NewResponse body 200
        [(''Content-Type'', Some t), (''Cache-Control'', Some c), (''ETag'', e),
         (''Content-Length'', l), (''X-Content-Type-Options'', Some n),
         (''X-Cache-Status'', Some m)]) = Some c"
  "header_get ''ETag''
     (NewResponse body 200
        [(''Content-Type'', Some t), (''Cache-Control'', Some c), (''ETag'', e),
         (''Content-Length'', l), (''X-Content-Type-Options'', Some n),
         (''X-Cache-Status'', Some m)]) = e"
  "header_get ''Content-Length''
     (NewResponse body 200
        [(''Content-Type'', Some t), (''Cache-Control'', Some c), (''ETag'', e),
         (''Content-Length'', l), (''X-Content-Type-Options'', Some n),
         (''X-Cache-Status'', Some m)]) = l"
  "header_get ''X-Content-Type-Options''
     (NewResponse body 200
        [(''Content-Type'', Some t), (''Cache-Control'', Some c), (''ETag'', e),
         (''Content-Length'', l), (''X-Content-Type-Options'', Some n),
         (''X-Cache-Status'', Some m)]) = Some n"
  "header_get ''X-Cache-Status''
     (NewResponse body 200
        [(''Content-Type'', Some t), (''Cache-Control'', Some c), (''ETag'', e),
         (''Content-Length'', l), (''X-Content-Type-Options'', Some n),
         (''X-Cache-Status'', Some m)]) = Some m"
  by (cases e; cases l;
      simp add: header_get_def defined_entries_simps entries_get_Cons entries_get_Nil
        lower_header_names)+

lemma fetched_headers_part_000:
  "header_get ''Content-Type''
     (NewResponse body 200
        [(''Content-Type'', Some t), (''Cache-Control'', Some c), (''ETag'', e),
         (''Content-Length'', l), (''X-Content-Type-Options'', Some n)]) = Some t"
  "header_get ''Cache-Control''
     (NewResponse body 200
        [(''Content-Type'', Some t), (''Cache-Control'', Some c), (''ETag'', e),
         (''Content-Length'', l), (''X-Content-Type-Options'', Some n)]) = Some c"
  "header_get ''ETag''
     (NewResponse body 200
        [(''Content-Type'', Some t), (''Cache-Control'', Some c), (''ETag'', e),
         (''Content-Length'', l), (''X-Content-Type-Options'', Some n)]) = e"
  "header_get ''Content-Length''
     (NewResponse body 200
        [(''Content-Type'', Some t), (''Cache-Control'', Some c), (''ETag'', e),
         (''Content-Length'', l), (''X-Content-Type-Options'', Some n)]) = l"
  "header_get ''X-Content-Type-Options''
     (NewResponse body 200
        [(''Content-Type'', Some t), (''Cache-Control'', Some c), (''ETag'', e),
         (''Content-Length'', l), (''X-Content-Type-Options'', Some n)]) = Some n"
  "header_get ''X-Cache-Status''
     (NewResponse body 200
        [(''Content-Type'', Some t), (''Cache-Control'', Some c), (''ETag'', e),
         (''Content-Length'', l), (''X-Content-Type-Options'', Some n)]) = None"
  by (cases e; cases l;
      simp add: header_get_def defined_entries_simps entries_get_Cons entries_get_Nil
        lower_header_names)+

lemma fetched_headers_part_001:
  "header_get ''Content-Type''
     (NewResponse body 200
        [(''Content-Type'', Some t), (''Cache-Control'', Some c), (''ETag'', Some e),
         (''X-Content-Type-Options'', Some n)]) = Some t"
  "header_get ''Cache-Control''
     (NewResponse body 200
        [(''Content-Type'', Some t), (''Cache-Control'', Some c), (''ETag'', Some e),
         (''X-Content-Type-Options'', Some n)]) = Some c"
  "header_get ''ETag''
     (NewResponse body 200
        [(''Content-Type'', Some t), (''Cache-Control'', Some c), (''ETag'', Some e),
         (''X-Content-Type-Options'', Some n)]) = Some e"
  "header_get ''Content-Length''
     (NewResponse body 200
        [(''Content-Type'', Some t), (''Cache-Control'', Some c), (''ETag'', Some e),
         (''X-Content-Type-Options'', Some n)]) = None"
  "header_get ''X-Content-Type-Options''
     (NewResponse body 200
        [(''Content-Type'', Some t), (''Cache-Control'', Some c), (''ETag'', Some e),
         (''X-Content-Type-Options'', Some n)]) = Some n"
  "header_get ''X-Cache-Status''
     (NewResponse body 200
        [(''Content-Type'', Some t), (''Cache-Control'', Some c), (''ETag'', Some e),
         (''X-Content-Type-Options'', Some n)]) = None"
  by (simp_all add: header_get_def defined_entries_simps entries_get_Cons entries_get_Nil
        lower_header_names)

lemma handler_200:
  assumes "status (fst (handler s3 cache_match req)) = 200"
  shows "validateFilename (filename req) \<and> extension (filename req) \<in> set ALLOWED_EXTENSIONS"
  using assms by (auto simp: handler_def Let_def split: if_splits)

lemma handler_part_000_200:
  assumes "status (handler_part_000 s3 req) = 200"
  shows "validateFilename (filename req) \<and> extension (filename req) \<in> set ALLOWED_EXTENSIONS"
  using assms
  by (auto simp: handler_part_000_def Let_def validateFilename_part_000_eq split: if_splits)

lemma handler_part_001_200:
  assumes "status (handler_part_001 s3_file req) = 200"
  shows "validateFilename (filename req) \<and> extension (filename req) \<in> set ALLOWED_EXTENSIONS"
  using assms
  by (auto simp: handler_part_001_def Let_def validateFilename_part_001_eq split: if_splits)

lemma handler_fetched:
  assumes "status (fst (handler s3 cache_match req)) = 200"
    and "S3Get (filename req) \<in> set (snd (handler s3 cache_match req))"
  shows "\<exists>headResponse tag len body.
           send_head s3 (filename req) = Inr headResponse \<and>
           ETag headResponse = Some tag \<and> ContentLength headResponse = Some len \<and>
           handler s3 cache_match req =
             (NewResponse body 200
                [(''Content-Type'', map_of CONTENT_TYPES (extension (filename req))),
                 (''Cache-Control'', Some ''public, max-age=604800''),
                 (''ETag'', Some (strip_quotes tag)),
                 (''Content-Length'', Some (toString len)),
                 (''X-Content-Type-Options'', Some ''nosniff''),
                 (''X-Cache-Status'', Some ''MISS'')],
              [S3Head (filename req), CacheMatch (url req), S3Get (filename req),
               CachePut (url req)])"
proof -
  from assms(1) have c: "validateFilename (filename req)"
    "extension (filename req) \<in> set ALLOWED_EXTENSIONS"
    using handler_200 by blast+
  from assms obtain headResponse body where
    h: "send_head s3 (filename req) = Inr headResponse" and
    m: "cache_match (url req) = Inr None" and
    g: "send_get s3 (filename req) = Inr body"
    by (auto simp: handler_classified [OF c] status_catch_error hit_response_def
        split: sum.splits option.splits)
  from assms(1) obtain tag len where
    "ETag headResponse = Some tag" "ContentLength headResponse = Some len"
    by (auto simp: handler_miss [where cache_match = cache_match, OF c h m g] split: option.splits)
  then show ?thesis
    using h by (simp add: handler_miss [where cache_match = cache_match, OF c h m g])
qed

lemma handler_part_000_classified:
  assumes "validateFilename (filename req)"
    and "extension (filename req) \<in> set ALLOWED_EXTENSIONS"
    and "send_head s3 (filename req) = Inr headResponse"
    and "send_get s3 (filename req) = Inr body"
  shows "handler_part_000 s3 req =
     (case (ETag headResponse, ContentLength headResponse) of
        (Some tag, Some len) \<Rightarrow>
          NewResponse body 200
             [(''Content-Type'', map_of CONTENT_TYPES (extension (filename req))),
              (''Cache-Control'', Some ''public, max-age=604800''),
              (''ETag'', Some (strip_quotes tag)),
              (''Content-Length'', Some (toString len)),
              (''X-Content-Type-Options'', Some ''nosniff'')]
      | _ \<Rightarrow> Text ''Internal Server Error'' 500)"
proof -
  obtain t where t: "map_of CONTENT_TYPES (extension (filename req)) = Some t"
    using assms(2) allowed_content_type by blast
  show ?thesis
    using assms
    by (cases "ETag headResponse"; cases "ContentLength headResponse")
      (simp_all add: handler_part_000_def Let_def validateFilename_part_000_eq t
        c_newResponse_def catch_error_def)
qed

lemma handler_part_000_fetched:
  assumes "status (handler_part_000 s3 req) = 200"
  shows "\<exists>headResponse tag len body.
           send_head s3 (filename req) = Inr headResponse \<and>
           ETag headResponse = Some tag \<and> ContentLength headResponse = Some len \<and>
           handler_part_000 s3 req =
             NewResponse body 200
               [(''Content-Type'', map_of CONTENT_TYPES (extension (filename req))),
                (''Cache-Control'', Some ''public, max-age=604800''),
                (''ETag'', Some (strip_quotes tag)),
                (''Content-Length'', Some (toString len)),
                (''X-Content-Type-Options'', Some ''nosniff'')]"
proof -
  from assms have c: "validateFilename (filename req)"
    "extension (filename req) \<in> set ALLOWED_EXTENSIONS"
    using handler_part_000_200 by blast+
  from assms obtain headResponse body where
    h: "send_head s3 (filename req) = Inr headResponse" and
    g: "send_get s3 (filename req) = Inr body"
    using c
    by (auto simp: handler_part_000_def Let_def validateFilename_part_000_eq
        status_catch_error split: sum.splits)
  from assms obtain tag len where
    "ETag headResponse = Some tag" "ContentLength headResponse = Some len"
    by (auto simp: handler_part_000_classified [OF c h g] split: option.splits)
  then show ?thesis
    using h by (simp add: handler_part_000_classified [OF c h g])
qed

lemma handler_part_001_classified:
  assumes "validateFilename (filename req)"
    and "extension (filename req) \<in> set ALLOWED_EXTENSIONS"
  shows "handler_part_001 s3_file req =
     (case (file_stat (s3_file (filename req)), file_exists (s3_file (filename req))) of
        (Inr stat, Inr exists) \<Rightarrow>
          if \<not> exists then Text ''Image not found'' 404
          else
            NewResponse (file_stream (s3_file (filename req))) 200
              [(''Content-Type'', map_of CONTENT_TYPES (extension (filename req))),
               (''Cache-Control'', Some ''public, max-age=604800''),
               (''ETag'', Some (etag stat)),
               (''X-Content-Type-Options'', Some ''nosniff'')]
      | _ \<Rightarrow> Text ''Internal Server Error'' 500)"
proof -
  obtain t where t: "map_of CONTENT_TYPES (extension (filename req)) = Some t"
    using assms(2) allowed_content_type by blast
  show ?thesis
    using assms
    by (simp add: handler_part_001_def Let_def validateFilename_part_001_eq t
        c_newResponse_def split: sum.split)
qed

lemma handler_part_001_fetched:
  assumes "status (handler_part_001 s3_file req) = 200"
  shows "\<exists>stat.
           file_stat (s3_file (filename req)) = Inr stat \<and>
           handler_part_001 s3_file req =
             NewResponse (file_stream (s3_file (filename req))) 200
               [(''Content-Type'', map_of CONTENT_TYPES (extension (filename req))),
                (''Cache-Control'', Some ''public, max-age=604800''),
                (''ETag'', Some (etag stat)),
                (''X-Content-Type-Options'', Some ''nosniff'')]"
proof -
  from assms have c: "validateFilename (filename req)"
    "extension (filename req) \<in> set ALLOWED_EXTENSIONS"
    using handler_part_001_200 by blast+
  show ?thesis
    using assms
    by (auto simp: handler_part_001_classified [OF c] split: sum.splits if_splits)
qed

text \<open>
  C3 (amended). In \<open>src/index.ts\<close>, every 200 response fetched from the store carries
  \<open>Content-Type\<close> from the table of the classifier,
  \<open>Cache-Control: public, max-age=604800\<close>, \<open>ETag\<close> equal to the tag of the store
  without its double quotes, \<open>Content-Length\<close> from the head metadata,
  \<open>X-Content-Type-Options: nosniff\<close> and \<open>X-Cache-Status: MISS\<close>. The response of
  \<open>part_000\<close> carries the same headers but no \<open>X-Cache-Status\<close>. The response of
  \<open>part_001\<close> carries \<open>Content-Type\<close>, \<open>Cache-Control\<close>, \<open>X-Content-Type-Options\<close>
  and the tag of \<open>stat()\<close> unchanged as \<open>ETag\<close>, and neither \<open>Content-Length\<close> nor
  \<open>X-Cache-Status\<close>.
\<close>

theorem fetched_response_headers:
  "(status (fst (handler s3 cache_match req)) = 200 \<and>
    S3Get (filename req) \<in> set (snd (handler s3 cache_match req)) \<longrightarrow>
      (\<exists>headResponse tag len contentType.
         send_head s3 (filename req) = Inr headResponse \<and>
         ETag headResponse = Some tag \<and> ContentLength headResponse = Some len \<and>
         map_of CONTENT_TYPES (extension (filename req)) = Some contentType \<and>
         header_get ''Content-Type'' (fst (handler s3 cache_match req)) = Some contentType \<and>
         header_get ''Cache-Control'' (fst (handler s3 cache_match req)) =
           Some ''public, max-age=604800'' \<and>
         header_get ''ETag'' (fst (handler s3 cache_match req)) = Some (strip_quotes tag) \<and>
         header_get ''Content-Length'' (fst (handler s3 cache_match req)) =
           Some (toString len) \<and>
         header_get ''X-Content-Type-Options'' (fst (handler s3 cache_match req)) =
           Some ''nosniff'' \<and>
         header_get ''X-Cache-Status'' (fst (handler s3 cache_match req)) = Some ''MISS'')) \<and>
   (status (handler_part_000 s3 req) = 200 \<longrightarrow>
      (\<exists>headResponse tag len contentType.
         send_head s3 (filename req) = Inr headResponse \<and>
         ETag headResponse = Some tag \<and> ContentLength headResponse = Some len \<and>
         map_of CONTENT_TYPES (extension (filename req)) = Some contentType \<and>
         header_get ''Content-Type'' (handler_part_000 s3 req) = Some contentType \<and>
         header_get ''Cache-Control'' (handler_part_000 s3 req) =
           Some ''public, max-age=604800'' \<and>
         header_get ''ETag'' (handler_part_000 s3 req) = Some (strip_quotes tag) \<and>
         header_get ''Content-Length'' (handler_part_000 s3 req) = Some (toString len) \<and>
         header_get ''X-Content-Type-Options'' (handler_part_000 s3 req) = Some ''nosniff'' \<and>
         header_get ''X-Cache-Status'' (handler_part_000 s3 req) = None)) \<and>
   (status (handler_part_001 s3_file req) = 200 \<longrightarrow>
      (\<exists>stat contentType.
         file_stat (s3_file (filename req)) = Inr stat \<and>
         map_of CONTENT_TYPES (extension (filename req)) = Some contentType \<and>
         header_get ''Content-Type'' (handler_part_001 s3_file req) = Some contentType \<and>
         header_get ''Cache-Control'' (handler_part_001 s3_file req) =
           Some ''public, max-age=604800'' \<and>
         header_get ''ETag'' (handler_part_001 s3_file req) = Some (etag stat) \<and>
         header_get ''Content-Length'' (handler_part_001 s3_file req) = None \<and>
         header_get ''X-Content-Type-Options'' (handler_part_001 s3_file req) = Some ''nosniff'' \<and>
         header_get ''X-Cache-Status'' (handler_part_001 s3_file req) = None))"
proof (intro conjI impI)
  assume a: "status (fst (handler s3 cache_match req)) = 200 \<and>
    S3Get (filename req) \<in> set (snd (handler s3 cache_match req))"
  then obtain headResponse tag len body where
    h: "send_head s3 (filename req) = Inr headResponse"
      "ETag headResponse = Some tag" "ContentLength headResponse = Some len" and
    r: "handler s3 cache_match req =
         (NewResponse body 200
            [(''Content-Type'', map_of CONTENT_TYPES (extension (filename req))),
             (''Cache-Control'', Some ''public, max-age=604800''),
             (''ETag'', Some (strip_quotes tag)),
             (''Content-Length'', Some (toString len)),
             (''X-Content-Type-Options'', Some ''nosniff''),
             (''X-Cache-Status'', Some ''MISS'')],
          [S3Head (filename req), CacheMatch (url req), S3Get (filename req),
           CachePut (url req)])"
    using handler_fetched by blast
  from a have "extension (filename req) \<in> set ALLOWED_EXTENSIONS"
    using handler_200 by blast
  then obtain t where t: "map_of CONTENT_TYPES (extension (filename req)) = Some t"
    using allowed_content_type by blast
  show "\<exists>headResponse tag len contentType.
         send_head s3 (filename req) = Inr headResponse \<and>
         ETag headResponse = Some tag \<and> ContentLength headResponse = Some len \<and>
         map_of CONTENT_TYPES (extension (filename req)) = Some contentType \<and>
         header_get ''Content-Type'' (fst (handler s3 cache_match req)) = Some contentType \<and>
         header_get ''Cache-Control'' (fst (handler s3 cache_match req)) =
           Some ''public, max-age=604800'' \<and>
         header_get ''ETag'' (fst (handler s3 cache_match req)) = Some (strip_quotes tag) \<and>
         header_get ''Content-Length'' (fst (handler s3 cache_match req)) =
           Some (toString len) \<and>
         header_get ''X-Content-Type-Options'' (fst (handler s3 cache_match req)) =
           Some ''nosniff'' \<and>
         header_get ''X-Cache-Status'' (fst (handler s3 cache_match req)) = Some ''MISS''"
    by (rule exI [of _ headResponse], rule exI [of _ tag], rule exI [of _ len],
        rule exI [of _ t])
      (simp add: h r t fetched_headers)
next
  assume a: "status (handler_part_000 s3 req) = 200"
  then obtain headResponse tag len body where
    h: "send_head s3 (filename req) = Inr headResponse"
      "ETag headResponse = Some tag" "ContentLength headResponse = Some len" and
    r: "handler_part_000 s3 req =
         NewResponse body 200
           [(''Content-Type'', map_of CONTENT_TYPES (extension (filename req))),
            (''Cache-Control'', Some ''public, max-age=604800''),
            (''ETag'', Some (strip_quotes tag)),
            (''Content-Length'', Some (toString len)),
            (''X-Content-Type-Options'', Some ''nosniff'')]"
    using handler_part_000_fetched by blast
  from a have "extension (filename req) \<in> set ALLOWED_EXTENSIONS"
    using handler_part_000_200 by blast
  then obtain t where t: "map_of CONTENT_TYPES (extension (filename req)) = Some t"
    using allowed_content_type by blast
  show "\<exists>headResponse tag len contentType.
         send_head s3 (filename req) = Inr headResponse \<and>
         ETag headResponse = Some tag \<and> ContentLength headResponse = Some len \<and>
         map_of CONTENT_TYPES (extension (filename req)) = Some contentType \<and>
         header_get ''Content-Type'' (handler_part_000 s3 req) = Some contentType \<and>
         header_get ''Cache-Control'' (handler_part_000 s3 req) =
           Some ''public, max-age=604800'' \<and>
         header_get ''ETag'' (handler_part_000 s3 req) = Some (strip_quotes tag) \<and>
         header_get ''Content-Length'' (handler_part_000 s3 req) = Some (toString len) \<and>
         header_get ''X-Content-Type-Options'' (handler_part_000 s3 req) = Some ''nosniff'' \<and>
         header_get ''X-Cache-Status'' (handler_part_000 s3 req) = None"
    by (rule exI [of _ headResponse], rule exI [of _ tag], rule exI [of _ len],
        rule exI [of _ t])
      (simp add: h r t fetched_headers_part_000)
next
  assume a: "status (handler_part_001 s3_file req) = 200"
  then obtain stat where
    h: "file_stat (s3_file (filename req)) = Inr stat" and
    r: "handler_part_001 s3_file req =
         NewResponse (file_stream (s3_file (filename req))) 200
           [(''Content-Type'', map_of CONTENT_TYPES (extension (filename req))),
            (''Cache-Control'', Some ''public, max-age=604800''),
            (''ETag'', Some (etag stat)),
            (''X-Content-Type-Options'', Some ''nosniff'')]"
    using handler_part_001_fetched by blast
  from a have "extension (filename req) \<in> set ALLOWED_EXTENSIONS"
    using handler_part_001_200 by blast
  then obtain t where t: "map_of CONTENT_TYPES (extension (filename req)) = Some t"
    using allowed_content_type by blast
  show "\<exists>stat contentType.
         file_stat (s3_file (filename req)) = Inr stat \<and>
         map_of CONTENT_TYPES (extension (filename req)) = Some contentType \<and>
         header_get ''Content-Type'' (handler_part_001 s3_file req) = Some contentType \<and>
         header_get ''Cache-Control'' (handler_part_001 s3_file req) =
           Some ''public, max-age=604800'' \<and>
         header_get ''ETag'' (handler_part_001 s3_file req) = Some (etag stat) \<and>
         header_get ''Content-Length'' (handler_part_001 s3_file req) = None \<and>
         header_get ''X-Content-Type-Options'' (handler_part_001 s3_file req) = Some ''nosniff'' \<and>
         header_get ''X-Cache-Status'' (handler_part_001 s3_file req) = None"
    by (rule exI [of _ stat], rule exI [of _ t])
      (simp add: h r t fetched_headers_part_001)
qed

lemma photo_head_fields:
  "ETag photo_head = Some ([CHR 0x22] @ ''abc123'' @ [CHR 0x22])"
  "ContentLength photo_head = Some 12345"
  "strip_quotes ([CHR 0x22] @ ''abc123'' @ [CHR 0x22]) = ''abc123''"
  by (simp_all add: photo_head_def strip_quotes_def)

lemma no_cache_entry_eq: "no_cache_entry = (\<lambda>key. Inr None)"
  by (rule ext) (simp add: no_cache_entry_def)

lemma photo_fetched:
  "handler photo_store no_cache_entry (request_for ''photo.jpg'') =
     (NewResponse ''bytes of photo.jpg'' 200
        [(''Content-Type'', Some ''image/jpeg''),
         (''Cache-Control'', Some ''public, max-age=604800''),
         (''ETag'', Some ''abc123''),
         (''Content-Length'', Some ''12345''),
         (''X-Content-Type-Options'', Some ''nosniff''),
         (''X-Cache-Status'', Some ''MISS'')],
      [S3Head (js ''photo.jpg''), CacheMatch ''https://img.example/images/photo.jpg'',
       S3Get (js ''photo.jpg''), CachePut ''https://img.example/images/photo.jpg''])"
proof -
  have valid: "validateFilename (filename (request_for ''photo.jpg''))"
    by (simp add: photo_request_fields photo_valid)
  have allowed: "extension (filename (request_for ''photo.jpg'')) \<in> set ALLOWED_EXTENSIONS"
    by (simp add: photo_request_fields photo_allowed)
  have head: "send_head photo_store (filename (request_for ''photo.jpg'')) = Inr photo_head"
    by (simp add: photo_request_fields photo_store_def)
  have miss: "no_cache_entry (url (request_for ''photo.jpg'')) = Inr None"
    by (simp add: no_cache_entry_def)
  have get: "send_get photo_store (filename (request_for ''photo.jpg'')) =
      Inr ''bytes of photo.jpg''"
    by (simp add: photo_request_fields photo_store_def)
  show ?thesis
    by (simp add: handler_miss [where cache_match = no_cache_entry, OF valid allowed head miss get]
        photo_head_fields strip_quotes_def photo_length photo_request_fields
        photo_content_type)
qed

lemma photo_fetched_part_000:
  "handler_part_000 photo_store (request_for ''photo.jpg'') =
     NewResponse ''bytes of photo.jpg'' 200
        [(''Content-Type'', Some ''image/jpeg''),
         (''Cache-Control'', Some ''public, max-age=604800''),
         (''ETag'', Some ''abc123''),
         (''Content-Length'', Some ''12345''),
         (''X-Content-Type-Options'', Some ''nosniff'')]"
proof -
  have valid: "validateFilename (filename (request_for ''photo.jpg''))"
    by (simp add: photo_request_fields photo_valid)
  have allowed: "extension (filename (request_for ''photo.jpg'')) \<in> set ALLOWED_EXTENSIONS"
    by (simp add: photo_request_fields photo_allowed)
  have head: "send_head photo_store (filename (request_for ''photo.jpg'')) = Inr photo_head"
    by (simp add: photo_request_fields photo_store_def)
  have get: "send_get photo_store (filename (request_for ''photo.jpg'')) =
      Inr ''bytes of photo.jpg''"
    by (simp add: photo_request_fields photo_store_def)
  show ?thesis
    by (simp add: handler_part_000_classified [OF valid allowed head get]
        photo_head_fields strip_quotes_def photo_length photo_request_fields
        photo_content_type)
qed

lemma photo_fetched_part_001:
  "handler_part_001 photo_bucket (request_for ''photo.jpg'') =
     NewResponse ''bytes of photo.jpg'' 200
        [(''Content-Type'', Some ''image/jpeg''),
         (''Cache-Control'', Some ''public, max-age=604800''),
         (''ETag'', Some ([CHR 0x22] @ ''abc123'' @ [CHR 0x22])),
         (''X-Content-Type-Options'', Some ''nosniff'')]"
proof -
  have valid: "validateFilename (filename (request_for ''photo.jpg''))"
    by (simp add: photo_request_fields photo_valid)
  have allowed: "extension (filename (request_for ''photo.jpg'')) \<in> set ALLOWED_EXTENSIONS"
    by (simp add: photo_request_fields photo_allowed)
  show ?thesis
    by (simp add: handler_part_001_classified [OF valid allowed] photo_request_fields
        photo_content_type photo_bucket_def)
qed

theorem fetched_response_headers_witness:
  "status (fst (handler photo_store no_cache_entry (request_for ''photo.jpg''))) = 200 \<and>
   S3Get (filename (request_for ''photo.jpg'')) \<in>
     set (snd (handler photo_store no_cache_entry (request_for ''photo.jpg''))) \<and>
   header_get ''ETag'' (fst (handler photo_store no_cache_entry (request_for ''photo.jpg''))) =
     map_option strip_quotes (ETag photo_head) \<and>
   header_get ''ETag'' (fst (handler photo_store no_cache_entry (request_for ''photo.jpg''))) =
     Some ''abc123'' \<and>
   header_get ''Content-Length''
     (fst (handler photo_store no_cache_entry (request_for ''photo.jpg''))) = Some ''12345'' \<and>
   header_get ''Content-Type''
     (fst (handler photo_store no_cache_entry (request_for ''photo.jpg''))) = Some ''image/jpeg'' \<and>
   header_get ''X-Cache-Status''
     (fst (handler photo_store no_cache_entry (request_for ''photo.jpg''))) = Some ''MISS'' \<and>
   status (handler_part_000 photo_store (request_for ''photo.jpg'')) = 200 \<and>
   header_get ''ETag'' (handler_part_000 photo_store (request_for ''photo.jpg'')) =
     Some ''abc123'' \<and>
   status (handler_part_001 photo_bucket (request_for ''photo.jpg'')) = 200 \<and>
   header_get ''Content-Length'' (handler_part_001 photo_bucket (request_for ''photo.jpg'')) = None"
proof -
  have s: "status (fst (handler photo_store no_cache_entry (request_for ''photo.jpg''))) = 200"
    by (simp add: photo_fetched)
  have g: "S3Get (filename (request_for ''photo.jpg'')) \<in>
     set (snd (handler photo_store no_cache_entry (request_for ''photo.jpg'')))"
    by (simp add: photo_fetched photo_request_fields)
  have s0: "status (handler_part_000 photo_store (request_for ''photo.jpg'')) = 200"
    by (simp add: photo_fetched_part_000)
  have s1: "status (handler_part_001 photo_bucket (request_for ''photo.jpg'')) = 200"
    by (simp add: photo_fetched_part_001)
  have head: "send_head photo_store (filename (request_for ''photo.jpg'')) = Inr photo_head"
    by (simp add: photo_request_fields photo_store_def)
  have ct: "map_of CONTENT_TYPES (extension (filename (request_for ''photo.jpg''))) =
      Some ''image/jpeg''"
    by (simp add: photo_request_fields photo_content_type)
  from fetched_response_headers
    [of photo_store no_cache_entry "request_for ''photo.jpg''" photo_bucket]
    s g s0 s1 head ct photo_head_fields photo_length
  show ?thesis by (auto simp: strip_quotes_def)
qed

theorem variants_omit_headers:
  "status (handler_part_000 photo_store (request_for ''photo.jpg'')) = 200 \<and>
   header_get ''X-Cache-Status'' (handler_part_000 photo_store (request_for ''photo.jpg'')) =
     None \<and>
   status (handler_part_001 photo_bucket (request_for ''photo.jpg'')) = 200 \<and>
   header_get ''Content-Length'' (handler_part_001 photo_bucket (request_for ''photo.jpg'')) =
     None \<and>
   header_get ''X-Cache-Status'' (handler_part_001 photo_bucket (request_for ''photo.jpg'')) =
     None \<and>
   file_stat (photo_bucket (js ''photo.jpg'')) =
     Inr \<lparr>etag = [CHR 0x22] @ ''abc123'' @ [CHR 0x22]\<rparr> \<and>
   header_get ''ETag'' (handler_part_001 photo_bucket (request_for ''photo.jpg'')) =
     Some ([CHR 0x22] @ ''abc123'' @ [CHR 0x22]) \<and>
   strip_quotes ([CHR 0x22] @ ''abc123'' @ [CHR 0x22]) = ''abc123''"
  by (simp add: photo_fetched_part_000 photo_fetched_part_001 fetched_headers_part_000
      fetched_headers_part_001 photo_bucket_def strip_quotes_def)

section \<open>Cache failures\<close>

lemma serve_response:
  "fst (serve s3 mode put_ok cache req) =
   fst (handler s3
          (\<lambda>key. case mode of
                    Failing error \<Rightarrow> Inl error
                  | _ \<Rightarrow> Inr ((if mode = Evicted then cache(url req := None) else cache) key))
          req)"
  by (simp add: serve_def Let_def split: prod.split)

lemma serve_put_failed:
  "snd (serve s3 mode False cache req) = (if mode = Evicted then cache(url req := None) else cache)"
  by (simp add: serve_def Let_def split: prod.split)

text \<open>
  C2 (amended). A failed cache lookup is not handled as a miss: the exception reaches
  the \<open>catch\<close> block of the handler, no get call is issued, and the request is answered
  500 \<open>Internal Server Error\<close> (404 \<open>Image not found\<close> when the name of the error is
  \<open>NotFound\<close>). A failed cache store is a silently dropped write: the response is the
  one of the request whose store succeeds, and the cache keeps what it held.
\<close>

theorem cache_failures:
  assumes "validateFilename (filename req)"
    and "extension (filename req) \<in> set ALLOWED_EXTENSIONS"
    and "send_head s3 (filename req) = Inr headResponse"
    and "cache_match (url req) = Inl error"
  shows "handler s3 cache_match req =
           (if error_name error = ''NotFound'' then Text ''Image not found'' 404
            else Text ''Internal Server Error'' 500,
            [S3Head (filename req), CacheMatch (url req)]) \<and>
         fst (serve s3 mode False cache req) = fst (serve s3 mode True cache req) \<and>
         snd (serve s3 Serving False cache req) = cache"
  using assms(3,4)
  by (simp add: handler_classified [OF assms(1,2)] catch_error_def serve_response
      serve_put_failed)

theorem cache_failures_witness:
  "handler photo_store (\<lambda>key. Inl (JsError ''CacheError'')) (request_for ''photo.jpg'') =
     (Text ''Internal Server Error'' 500,
      [S3Head (js ''photo.jpg''), CacheMatch ''https://img.example/images/photo.jpg'']) \<and>
   status (fst (serve photo_store Serving False Map.empty (request_for ''photo.jpg''))) = 200 \<and>
   fst (serve photo_store Serving False Map.empty (request_for ''photo.jpg'')) =
     fst (serve photo_store Serving True Map.empty (request_for ''photo.jpg'')) \<and>
   snd (serve photo_store Serving False Map.empty (request_for ''photo.jpg'')) = Map.empty"
proof -
  have valid: "validateFilename (filename (request_for ''photo.jpg''))"
    by (simp add: photo_request_fields photo_valid)
  have allowed: "extension (filename (request_for ''photo.jpg'')) \<in> set ALLOWED_EXTENSIONS"
    by (simp add: photo_request_fields photo_allowed)
  have head: "send_head photo_store (filename (request_for ''photo.jpg'')) = Inr photo_head"
    by (simp add: photo_request_fields photo_store_def)
  have failing: "(\<lambda>key. Inl (JsError ''CacheError'')) (url (request_for ''photo.jpg'')) =
      (Inl (JsError ''CacheError'') :: js_error + string cached option)"
    by simp
  have ok: "status (fst (serve photo_store Serving False Map.empty (request_for ''photo.jpg''))) = 200"
    using photo_fetched [unfolded no_cache_entry_eq] by (simp add: serve_response)
  from cache_failures [OF valid allowed head failing, of Serving Map.empty] ok
  show ?thesis by (simp add: photo_request_fields)
qed

theorem cache_lookup_failure_surfaces:
  "status (fst (handler photo_store no_cache_entry (request_for ''photo.jpg''))) = 200 \<and>
   handler photo_store (\<lambda>key. Inl (JsError ''CacheError'')) (request_for ''photo.jpg'') =
     (Text ''Internal Server Error'' 500,
      [S3Head (js ''photo.jpg''), CacheMatch ''https://img.example/images/photo.jpg'']) \<and>
   fst (serve photo_store (Failing (JsError ''CacheError'')) True Map.empty
          (request_for ''photo.jpg'')) = Text ''Internal Server Error'' 500"
proof -
  have miss: "status (fst (handler photo_store no_cache_entry (request_for ''photo.jpg''))) = 200"
    by (simp add: photo_fetched)
  have failing: "handler photo_store (\<lambda>key. Inl (JsError ''CacheError'')) (request_for ''photo.jpg'') =
     (Text ''Internal Server Error'' 500,
      [S3Head (js ''photo.jpg''), CacheMatch ''https://img.example/images/photo.jpg''])"
    by (simp add: handler_classified photo_request_fields photo_valid photo_allowed
        photo_store_def catch_error_def)
  then have "fst (serve photo_store (Failing (JsError ''CacheError'')) True Map.empty
          (request_for ''photo.jpg'')) = Text ''Internal Server Error'' 500"
    by (simp add: serve_response)
  with miss failing show ?thesis by (intro conjI)
qed

section \<open>A missing object\<close>

lemma missing_object_not_found:
  assumes "validateFilename (filename req)"
    and "extension (filename req) \<in> set ALLOWED_EXTENSIONS"
    and "send_head s3 (filename req) = Inl error"
    and "error_name error = ''NotFound''"
  shows "handler s3 cache_match req = (Text ''Image not found'' 404, [S3Head (filename req)])"
    and "handler_part_000 s3 req = Text ''Image not found'' 404"
    and "header_get ''ETag'' (fst (handler s3 cache_match req)) = None"
    and "header_get ''ETag'' (handler_part_000 s3 req) = None"
  using assms
  by (simp_all add: handler_classified handler_part_000_def Let_def validateFilename_part_000_eq
      catch_error_def header_get_def entries_get_Nil)

lemma part_001_missing_resolved:
  assumes "validateFilename (filename req)"
    and "extension (filename req) \<in> set ALLOWED_EXTENSIONS"
    and "file_stat (s3_file (filename req)) = Inr stat"
    and "file_exists (s3_file (filename req)) = Inr False"
  shows "handler_part_001 s3_file req = Text ''Image not found'' 404"
  using assms by (simp add: handler_part_001_classified)

lemma part_001_missing_rejected:
  assumes "validateFilename (filename req)"
    and "extension (filename req) \<in> set ALLOWED_EXTENSIONS"
    and "file_stat (s3_file (filename req)) = Inl error"
  shows "handler_part_001 s3_file req = Text ''Internal Server Error'' 500"
  using assms by (simp add: handler_part_001_classified)

lemma missing_valid: "validateFilename (js ''missing.gif'')"
  by (simp add: validateFilename_def regex_test_def class_matches_def js_def cu_def)

lemma missing_allowed: "extension (js ''missing.gif'') \<in> set ALLOWED_EXTENSIONS"
  by (simp add: extension_def lastIndexOf_def slice_js_def toLowerCase_def
      toLowerCase_unit_def ALLOWED_EXTENSIONS_def js_def cu_def)

lemma missing_key: "js ''missing.gif'' \<noteq> js ''photo.jpg''"
  by (simp add: js_def cu_def)

text \<open>
  C7. A validated filename with an allow-listed extension whose object does not exist
  in the store: \<open>src/index.ts\<close> and \<open>part_000\<close> answer 404 \<open>Image not found\<close>;
  \<open>part_001\<close> answers 500 \<open>Internal Server Error\<close> when \<open>stat()\<close> of the missing key is
  rejected, although \<open>exists()\<close> resolves to false.
\<close>

theorem missing_object_part_001:
  "validateFilename_part_001 (js ''missing.gif'') \<and>
   extension (js ''missing.gif'') \<in> set ALLOWED_EXTENSIONS \<and>
   file_exists (photo_bucket (js ''missing.gif'')) = Inr False \<and>
   file_stat (photo_bucket (js ''missing.gif'')) = Inl (JsError ''S3Error'') \<and>
   handler_part_001 photo_bucket (request_for ''missing.gif'') =
     Text ''Internal Server Error'' 500 \<and>
   handler photo_store no_cache_entry (request_for ''missing.gif'') =
     (Text ''Image not found'' 404, [S3Head (js ''missing.gif'')]) \<and>
   handler_part_000 photo_store (request_for ''missing.gif'') = Text ''Image not found'' 404"
  by (simp add: handler_classified handler_part_000_def handler_part_001_classified Let_def
      validateFilename_part_000_eq validateFilename_part_001_eq missing_valid missing_allowed
      missing_key request_for_def photo_bucket_def photo_store_def catch_error_def)

section \<open>The extension of an accepted filename\<close>

lemma lastIndexOf_from_last:
  "c \<notin> set t \<Longrightarrow> lastIndexOf_from (p @ c # t) c i found = int (i + length p)"
proof (induction p arbitrary: i found)
  case Nil
  then show ?case by (simp add: lastIndexOf_from_absent)
next
  case (Cons x p)
  then show ?case by simp
qed

lemma lastIndexOf_last: "c \<notin> set t \<Longrightarrow> lastIndexOf (p @ c # t) c = int (length p)"
  by (simp add: lastIndexOf_def lastIndexOf_from_last)

lemma extension_last_dot:
  "cu CHR ''.'' \<notin> set t \<Longrightarrow>
   extension (p @ cu CHR ''.'' # t) = toLowerCase (cu CHR ''.'' # t)"
  by (simp add: extension_def lastIndexOf_last slice_js_def Let_def)

lemma allowed_last_dot_suffix:
  assumes "validateFilename f" and "extension f \<in> set ALLOWED_EXTENSIONS"
  shows "\<exists>p t. f = p @ cu CHR ''.'' # t \<and> cu CHR ''.'' \<notin> set t \<and>
           toLowerCase (cu CHR ''.'' # t) \<in> set ALLOWED_EXTENSIONS"
proof -
  have "f \<noteq> []" using assms(1) by (rule validateFilename_nonempty)
  then have "cu CHR ''.'' \<in> set f"
    using assms(2) extension_dotless_not_allowed by blast
  then obtain p t where f: "f = p @ cu CHR ''.'' # t" and t: "cu CHR ''.'' \<notin> set t"
    using split_list_last by fastforce
  from assms(2) have "toLowerCase (cu CHR ''.'' # t) \<in> set ALLOWED_EXTENSIONS"
    unfolding f by (simp only: extension_last_dot [OF t])
  with f t show ?thesis by blast
qed

section \<open>Content types across requests\<close>

lemma cached_copy_fetched:
  "cached_copy
     (NewResponse body 200
        [(''Content-Type'', Some t), (''Cache-Control'', Some c), (''ETag'', Some e),
         (''Content-Length'', Some l), (''X-Content-Type-Options'', Some n),
         (''X-Cache-Status'', Some m)]) =
   Some (body,
         [(''cache-control'', c), (''content-length'', l), (''content-type'', t),
          (''etag'', e), (''x-cache-status'', m), (''x-content-type-options'', n)])"
  by (simp add: defined_entries_simps lower_header_names less_eq_char_def less_char_def)

lemma cached_entry_names:
  "distinct (map fst
     [(''cache-control'', c), (''content-length'', l), (''content-type'', t),
      (''etag'', e), (''x-cache-status'', m), (''x-content-type-options'', n)]) \<and>
   (\<forall>k \<in> fst ` set
     [(''cache-control'', c), (''content-length'', l), (''content-type'', t),
      (''etag'', e), (''x-cache-status'', m), (''x-content-type-options'', n)]. lower k = k) \<and>
   map_of
     [(''cache-control'', c), (''content-length'', l), (''content-type'', t),
      (''etag'', e), (''x-cache-status'', m), (''x-content-type-options'', n)]
     ''content-type'' = Some t"
  by (simp add: lower_def lower_char_def)


lemma handler_put:
  assumes "CachePut key \<in> set (snd (handler s3 cache_match req))"
  shows "status (fst (handler s3 cache_match req)) = 200 \<and>
         S3Get (filename req) \<in> set (snd (handler s3 cache_match req))"
proof -
  have c: "validateFilename (filename req)" "extension (filename req) \<in> set ALLOWED_EXTENSIONS"
    using assms by (auto simp: handler_def Let_def split: if_splits)
  show ?thesis
    using assms
    by (auto simp: handler_classified [OF c] c_newResponse_def
        split: sum.splits option.splits if_splits)
qed

lemma cache_invar_empty: "cache_invar Map.empty"
  by (simp add: cache_invar_def)

lemma cache_invar_evict:
  assumes "cache_invar cache"
  shows "cache_invar (cache(key := None))"
  unfolding cache_invar_def
proof (intro allI impI)
  fix key' body' hs'
  assume "(cache(key := None)) key' = Some (body', hs')"
  then have "cache key' = Some (body', hs')" by (simp split: if_splits)
  with assms show "distinct (map fst hs') \<and> (\<forall>k \<in> fst ` set hs'. lower k = k) \<and>
        (\<exists>t \<in> {''image/jpeg'', ''image/png'', ''image/gif'', ''image/webp''}.
           map_of hs' ''content-type'' = Some t)"
    unfolding cache_invar_def by blast
qed

lemma cache_invar_put:
  assumes "cache_invar cache"
    and "distinct (map fst hs) \<and> (\<forall>k \<in> fst ` set hs. lower k = k) \<and>
         map_of hs ''content-type'' = Some t"
    and "t \<in> {''image/jpeg'', ''image/png'', ''image/gif'', ''image/webp''}"
  shows "cache_invar (cache(key \<mapsto> (body, hs)))"
  unfolding cache_invar_def
proof (intro allI impI)
  fix key' body' hs'
  assume e: "(cache(key \<mapsto> (body, hs))) key' = Some (body', hs')"
  show "distinct (map fst hs') \<and> (\<forall>k \<in> fst ` set hs'. lower k = k) \<and>
        (\<exists>t \<in> {''image/jpeg'', ''image/png'', ''image/gif'', ''image/webp''}.
           map_of hs' ''content-type'' = Some t)"
  proof (cases "key' = key")
    case True
    with e have "hs' = hs" by simp
    with assms(2,3) show ?thesis by blast
  next
    case False
    with e have "cache key' = Some (body', hs')" by simp
    with assms(1) show ?thesis unfolding cache_invar_def by blast
  qed
qed

lemma serve_unfold:
  "serve s3 mode put_ok cache req =
     (fst (handler s3
             (\<lambda>key. case mode of
                       Failing error \<Rightarrow> Inl error
                     | _ \<Rightarrow> Inr ((if mode = Evicted then cache(url req := None) else cache) key))
             req),
      if CachePut (url req) \<in>
           set (snd (handler s3
             (\<lambda>key. case mode of
                       Failing error \<Rightarrow> Inl error
                     | _ \<Rightarrow> Inr ((if mode = Evicted then cache(url req := None) else cache) key))
             req)) \<and> put_ok
      then (case cached_copy (fst (handler s3
             (\<lambda>key. case mode of
                       Failing error \<Rightarrow> Inl error
                     | _ \<Rightarrow> Inr ((if mode = Evicted then cache(url req := None) else cache) key))
             req)) of
              Some entry \<Rightarrow> (if mode = Evicted then cache(url req := None) else cache)(url req \<mapsto> entry)
            | None \<Rightarrow> (if mode = Evicted then cache(url req := None) else cache))
      else (if mode = Evicted then cache(url req := None) else cache))"
  unfolding serve_def Let_def case_prod_beta by (rule refl)

lemma serve_cache_invar:
  assumes "cache_invar cache"
  shows "cache_invar (snd (serve s3 mode put_ok cache req))"
proof -
  let ?held = "if mode = Evicted then cache(url req := None) else cache"
  let ?cache_match = "\<lambda>key. case mode of Failing error \<Rightarrow> Inl error | _ \<Rightarrow> Inr (?held key)"
  have held: "cache_invar ?held"
  proof (cases "mode = Evicted")
    case True
    have "cache_invar (cache(url req := None))" using assms by (rule cache_invar_evict)
    with True show ?thesis by (simp only: if_P)
  next
    case False
    with assms show ?thesis by (simp only: if_False)
  qed
  have step: "snd (serve s3 mode put_ok cache req) =
      (if CachePut (url req) \<in> set (snd (handler s3 ?cache_match req)) \<and> put_ok
       then (case cached_copy (fst (handler s3 ?cache_match req)) of
               Some entry \<Rightarrow> ?held(url req \<mapsto> entry)
             | None \<Rightarrow> ?held)
       else ?held)"
    unfolding serve_unfold snd_conv by (rule refl)
  show ?thesis
  proof (cases "CachePut (url req) \<in> set (snd (handler s3 ?cache_match req)) \<and> put_ok")
    case False
    then have "snd (serve s3 mode put_ok cache req) = ?held"
      unfolding step by (rule if_not_P)
    with held show ?thesis by (simp only:)
  next
    case True
    then have fetched: "status (fst (handler s3 ?cache_match req)) = 200"
      "S3Get (filename req) \<in> set (snd (handler s3 ?cache_match req))"
      using handler_put by blast+
    then obtain tag len body where
      r: "fst (handler s3 ?cache_match req) =
             NewResponse body 200
               [(''Content-Type'', map_of CONTENT_TYPES (extension (filename req))),
                (''Cache-Control'', Some ''public, max-age=604800''),
                (''ETag'', Some (strip_quotes tag)),
                (''Content-Length'', Some (toString len)),
                (''X-Content-Type-Options'', Some ''nosniff''),
                (''X-Cache-Status'', Some ''MISS'')]"
      using handler_fetched [where cache_match = ?cache_match] by fastforce
    from fetched(1) have a: "extension (filename req) \<in> set ALLOWED_EXTENSIONS"
      using handler_200 by blast
    from a obtain t where t: "map_of CONTENT_TYPES (extension (filename req)) = Some t"
      "t \<in> {''image/jpeg'', ''image/png'', ''image/gif'', ''image/webp''}"
      using allowed_content_type by blast
    obtain body' hs where e: "cached_copy (fst (handler s3 ?cache_match req)) = Some (body', hs)"
      and hs: "hs =
        [(''cache-control'', ''public, max-age=604800''), (''content-length'', toString len),
         (''content-type'', t), (''etag'', strip_quotes tag), (''x-cache-status'', ''MISS''),
         (''x-content-type-options'', ''nosniff'')]"
      unfolding r t(1) cached_copy_fetched by simp
    have wf: "distinct (map fst hs) \<and> (\<forall>k \<in> fst ` set hs. lower k = k) \<and>
         map_of hs ''content-type'' = Some t"
      unfolding hs by (rule cached_entry_names)
    have inv: "cache_invar (?held(url req \<mapsto> (body', hs)))"
      using held wf t(2) by (rule cache_invar_put)
    have "snd (serve s3 mode put_ok cache req) = ?held(url req \<mapsto> (body', hs))"
      unfolding step using True e by (simp only: if_P option.case)
    with inv show ?thesis by (simp only:)
  qed
qed

lemma hit_response_content_type:
  assumes "distinct (map fst hs)" and "\<forall>k \<in> fst ` set hs. lower k = k"
  shows "header_get ''Content-Type'' (hit_response (body, hs)) = map_of hs ''content-type''"
proof -
  have "lower ''Content-Type'' \<noteq> ''x-cache-status''"
    by (simp add: lower_header_names)
  then show ?thesis
    using assms
    by (simp add: header_get_def hit_response_def hit_headers entries_get_lower_distinct
        lower_header_names)
qed

lemma handler_content_type:
  assumes "status (fst (handler s3 cache_match req)) = 200"
    and "\<forall>body hs. cache_match (url req) = Inr (Some (body, hs)) \<longrightarrow>
           distinct (map fst hs) \<and> (\<forall>k \<in> fst ` set hs. lower k = k) \<and>
           (\<exists>t \<in> {''image/jpeg'', ''image/png'', ''image/gif'', ''image/webp''}.
              map_of hs ''content-type'' = Some t)"
  shows "header_get ''Content-Type'' (fst (handler s3 cache_match req)) \<in>
           Some ` {''image/jpeg'', ''image/png'', ''image/gif'', ''image/webp''}"
proof -
  from assms(1) have c: "validateFilename (filename req)"
    "extension (filename req) \<in> set ALLOWED_EXTENSIONS"
    using handler_200 by blast+
  from c(2) obtain t where t: "map_of CONTENT_TYPES (extension (filename req)) = Some t"
    "t \<in> {''image/jpeg'', ''image/png'', ''image/gif'', ''image/webp''}"
    using allowed_content_type by blast
  show ?thesis
  proof (cases "S3Get (filename req) \<in> set (snd (handler s3 cache_match req))")
    case True
    with assms(1) obtain tag len body where
      "fst (handler s3 cache_match req) =
         NewResponse body 200
           [(''Content-Type'', map_of CONTENT_TYPES (extension (filename req))),
            (''Cache-Control'', Some ''public, max-age=604800''),
            (''ETag'', Some (strip_quotes tag)),
            (''Content-Length'', Some (toString len)),
            (''X-Content-Type-Options'', Some ''nosniff''),
            (''X-Cache-Status'', Some ''MISS'')]"
      using handler_fetched [where cache_match = cache_match] by fastforce
    then show ?thesis using t by (simp add: fetched_headers)
  next
    case False
    with assms(1) obtain cached where
      m: "cache_match (url req) = Inr (Some cached)" and
      r: "fst (handler s3 cache_match req) = hit_response cached"
      by (auto simp: handler_classified [OF c] status_catch_error
          split: sum.splits option.splits)
    obtain body hs where cached: "cached = (body, hs)" by (cases cached)
    from m assms(2) have wf: "distinct (map fst hs)" "\<forall>k \<in> fst ` set hs. lower k = k"
      and ct: "\<exists>t \<in> {''image/jpeg'', ''image/png'', ''image/gif'', ''image/webp''}.
              map_of hs ''content-type'' = Some t"
      unfolding cached by blast+
    show ?thesis
      using ct by (auto simp: r cached hit_response_content_type [OF wf])
  qed
qed

lemma serve_content_type:
  assumes "cache_invar cache" and "status (fst (serve s3 mode put_ok cache req)) = 200"
  shows "validateFilename (filename req) \<and>
         extension (filename req) \<in> set ALLOWED_EXTENSIONS \<and>
         header_get ''Content-Type'' (fst (serve s3 mode put_ok cache req)) \<in>
           Some ` {''image/jpeg'', ''image/png'', ''image/gif'', ''image/webp''}"
proof -
  let ?held = "if mode = Evicted then cache(url req := None) else cache"
  let ?cache_match = "\<lambda>key. case mode of Failing error \<Rightarrow> Inl error | _ \<Rightarrow> Inr (?held key)"
  have held: "cache_invar ?held"
  proof (cases "mode = Evicted")
    case True
    have "cache_invar (cache(url req := None))" using assms(1) by (rule cache_invar_evict)
    with True show ?thesis by (simp only: if_P)
  next
    case False
    with assms(1) show ?thesis by (simp only: if_False)
  qed
  have r: "fst (serve s3 mode put_ok cache req) = fst (handler s3 ?cache_match req)"
    by (rule serve_response)
  have entries: "\<forall>body hs. ?cache_match (url req) = Inr (Some (body, hs)) \<longrightarrow>
           distinct (map fst hs) \<and> (\<forall>k \<in> fst ` set hs. lower k = k) \<and>
           (\<exists>t \<in> {''image/jpeg'', ''image/png'', ''image/gif'', ''image/webp''}.
              map_of hs ''content-type'' = Some t)"
  proof (intro allI impI)
    fix body hs
    assume "?cache_match (url req) = Inr (Some (body, hs))"
    then have "?held (url req) = Some (body, hs)"
      by (cases mode) simp_all
    with held show "distinct (map fst hs) \<and> (\<forall>k \<in> fst ` set hs. lower k = k) \<and>
           (\<exists>t \<in> {''image/jpeg'', ''image/png'', ''image/gif'', ''image/webp''}.
              map_of hs ''content-type'' = Some t)"
      unfolding cache_invar_def by blast
  qed
  from assms(2) have s: "status (fst (handler s3 ?cache_match req)) = 200"
    unfolding r .
  from s have "validateFilename (filename req) \<and>
      extension (filename req) \<in> set ALLOWED_EXTENSIONS"
    by (rule handler_200)
  moreover from s entries
  have "header_get ''Content-Type'' (fst (handler s3 ?cache_match req)) \<in>
           Some ` {''image/jpeg'', ''image/png'', ''image/gif'', ''image/webp''}"
    by (rule handler_content_type)
  ultimately show ?thesis unfolding r by blast
qed

lemma run_Cons:
  "run cache ((s3, mode, put_ok, req) # rest) =
     (req, fst (serve s3 mode put_ok cache req)) # run (snd (serve s3 mode put_ok cache req)) rest"
  by (simp add: case_prod_beta)

lemma run_content_type:
  assumes "cache_invar cache" and "(req, r) \<in> set (run cache steps)" and "status r = 200"
  shows "validateFilename (filename req) \<and>
         extension (filename req) \<in> set ALLOWED_EXTENSIONS \<and>
         header_get ''Content-Type'' r \<in>
           Some ` {''image/jpeg'', ''image/png'', ''image/gif'', ''image/webp''}"
  using assms
proof (induction steps arbitrary: cache)
  case Nil
  then show ?case by simp
next
  case (Cons step steps)
  obtain s3 mode put_ok req' where step: "step = (s3, mode, put_ok, req')"
    by (cases step) auto
  from Cons.prems(2) have
    "(req, r) = (req', fst (serve s3 mode put_ok cache req')) \<or>
     (req, r) \<in> set (run (snd (serve s3 mode put_ok cache req')) steps)"
    unfolding step run_Cons by simp
  then show ?case
  proof
    assume "(req, r) = (req', fst (serve s3 mode put_ok cache req'))"
    then have "req = req'" "r = fst (serve s3 mode put_ok cache req')" by simp_all
    with Cons.prems(1,3) show ?thesis using serve_content_type by blast
  next
    assume rest: "(req, r) \<in> set (run (snd (serve s3 mode put_ok cache req')) steps)"
    have "cache_invar (snd (serve s3 mode put_ok cache req'))"
      using Cons.prems(1) by (rule serve_cache_invar)
    from Cons.IH [OF this rest Cons.prems(3)] show ?thesis .
  qed
qed

lemma photo_first_request:
  "serve photo_store Serving True Map.empty (request_for ''photo.jpg'') =
     (NewResponse ''bytes of photo.jpg'' 200
        [(''Content-Type'', Some ''image/jpeg''),
         (''Cache-Control'', Some ''public, max-age=604800''),
         (''ETag'', Some ''abc123''),
         (''Content-Length'', Some ''12345''),
         (''X-Content-Type-Options'', Some ''nosniff''),
         (''X-Cache-Status'', Some ''MISS'')],
      [''https://img.example/images/photo.jpg'' \<mapsto> photo_cached])"
  using photo_fetched [unfolded no_cache_entry_eq]
  by (simp add: serve_unfold photo_request_fields cached_copy_fetched photo_cached_def
      del: cached_copy.simps)

lemma photo_second_request:
  "fst (serve photo_store Serving put_ok
          [''https://img.example/images/photo.jpg'' \<mapsto> photo_cached]
          (request_for ''photo.jpg'')) =
     Response ''bytes of photo.jpg'' 200
        [(''cache-control'', ''public, max-age=604800''),
         (''content-length'', ''12345''),
         (''content-type'', ''image/jpeg''),
         (''etag'', ''abc123''),
         (''x-cache-status'', ''HIT''),
         (''x-content-type-options'', ''nosniff'')]"
  by (simp add: serve_response handler_classified photo_request_fields photo_valid
      photo_allowed photo_store_def hit_response_def fromEntries_def photo_cached_def)

lemma photo_run:
  "run Map.empty
     [(photo_store, Serving, True, request_for ''photo.jpg''),
      (photo_store, Serving, True, request_for ''photo.jpg'')] =
   [(request_for ''photo.jpg'',
     NewResponse ''bytes of photo.jpg'' 200
        [(''Content-Type'', Some ''image/jpeg''),
         (''Cache-Control'', Some ''public, max-age=604800''),
         (''ETag'', Some ''abc123''),
         (''Content-Length'', Some ''12345''),
         (''X-Content-Type-Options'', Some ''nosniff''),
         (''X-Cache-Status'', Some ''MISS'')]),
    (request_for ''photo.jpg'',
     Response ''bytes of photo.jpg'' 200
        [(''cache-control'', ''public, max-age=604800''),
         (''content-length'', ''12345''),
         (''content-type'', ''image/jpeg''),
         (''etag'', ''abc123''),
         (''x-cache-status'', ''HIT''),
         (''x-content-type-options'', ''nosniff'')])]"
  by (simp only: run_Cons photo_first_request photo_second_request run.simps(1) fst_conv
      snd_conv)

text \<open>
  C9. Every 200 response carries a \<open>Content-Type\<close> that is one of \<open>image/jpeg\<close>,
  \<open>image/png\<close>, \<open>image/gif\<close> and \<open>image/webp\<close>, the values of the table
  \<open>CONTENT_TYPES\<close>, and a 200 is possible only when the extension of the filename (the
  suffix from its last dot, in lower case) is one of the five entries of the allow-list.
  For \<open>src/index.ts\<close> the responses are those of any sequence of requests against a
  cache that is empty at first, so that it holds only what the handler has stored.
\<close>

theorem ok_response_content_type:
  "((req, r) \<in> set (run Map.empty steps) \<and> status r = 200 \<longrightarrow>
      extension (filename req) \<in> set ALLOWED_EXTENSIONS \<and>
      (\<exists>p t. filename req = p @ cu CHR ''.'' # t \<and> cu CHR ''.'' \<notin> set t \<and>
         toLowerCase (cu CHR ''.'' # t) \<in> set ALLOWED_EXTENSIONS) \<and>
      header_get ''Content-Type'' r \<in>
        Some ` {''image/jpeg'', ''image/png'', ''image/gif'', ''image/webp''}) \<and>
   (status (handler_part_000 s3 req) = 200 \<longrightarrow>
      extension (filename req) \<in> set ALLOWED_EXTENSIONS \<and>
      (\<exists>p t. filename req = p @ cu CHR ''.'' # t \<and> cu CHR ''.'' \<notin> set t \<and>
         toLowerCase (cu CHR ''.'' # t) \<in> set ALLOWED_EXTENSIONS) \<and>
      header_get ''Content-Type'' (handler_part_000 s3 req) \<in>
        Some ` {''image/jpeg'', ''image/png'', ''image/gif'', ''image/webp''}) \<and>
   (status (handler_part_001 s3_file req) = 200 \<longrightarrow>
      extension (filename req) \<in> set ALLOWED_EXTENSIONS \<and>
      (\<exists>p t. filename req = p @ cu CHR ''.'' # t \<and> cu CHR ''.'' \<notin> set t \<and>
         toLowerCase (cu CHR ''.'' # t) \<in> set ALLOWED_EXTENSIONS) \<and>
      header_get ''Content-Type'' (handler_part_001 s3_file req) \<in>
        Some ` {''image/jpeg'', ''image/png'', ''image/gif'', ''image/webp''}) \<and>
   snd ` set CONTENT_TYPES = {''image/jpeg'', ''image/png'', ''image/gif'', ''image/webp''} \<and>
   fst ` set CONTENT_TYPES = set ALLOWED_EXTENSIONS \<and>
   distinct ALLOWED_EXTENSIONS \<and> length ALLOWED_EXTENSIONS = 5"
proof -
  have cached: "(req, r) \<in> set (run Map.empty steps) \<and> status r = 200 \<longrightarrow>
      extension (filename req) \<in> set ALLOWED_EXTENSIONS \<and>
      (\<exists>p t. filename req = p @ cu CHR ''.'' # t \<and> cu CHR ''.'' \<notin> set t \<and>
         toLowerCase (cu CHR ''.'' # t) \<in> set ALLOWED_EXTENSIONS) \<and>
      header_get ''Content-Type'' r \<in>
        Some ` {''image/jpeg'', ''image/png'', ''image/gif'', ''image/webp''}"
  proof
    assume a: "(req, r) \<in> set (run Map.empty steps) \<and> status r = 200"
    have "validateFilename (filename req) \<and>
      extension (filename req) \<in> set ALLOWED_EXTENSIONS \<and>
      header_get ''Content-Type'' r \<in>
        Some ` {''image/jpeg'', ''image/png'', ''image/gif'', ''image/webp''}"
      using cache_invar_empty a [THEN conjunct1] a [THEN conjunct2]
      by (rule run_content_type)
    then show "extension (filename req) \<in> set ALLOWED_EXTENSIONS \<and>
      (\<exists>p t. filename req = p @ cu CHR ''.'' # t \<and> cu CHR ''.'' \<notin> set t \<and>
         toLowerCase (cu CHR ''.'' # t) \<in> set ALLOWED_EXTENSIONS) \<and>
      header_get ''Content-Type'' r \<in>
        Some ` {''image/jpeg'', ''image/png'', ''image/gif'', ''image/webp''}"
      using allowed_last_dot_suffix by blast
  qed
  have part_000: "status (handler_part_000 s3 req) = 200 \<longrightarrow>
      extension (filename req) \<in> set ALLOWED_EXTENSIONS \<and>
      (\<exists>p t. filename req = p @ cu CHR ''.'' # t \<and> cu CHR ''.'' \<notin> set t \<and>
         toLowerCase (cu CHR ''.'' # t) \<in> set ALLOWED_EXTENSIONS) \<and>
      header_get ''Content-Type'' (handler_part_000 s3 req) \<in>
        Some ` {''image/jpeg'', ''image/png'', ''image/gif'', ''image/webp''}"
  proof
    assume a: "status (handler_part_000 s3 req) = 200"
    then have v: "validateFilename (filename req)"
      and e: "extension (filename req) \<in> set ALLOWED_EXTENSIONS"
      using handler_part_000_200 by blast+
    from e obtain t where t: "map_of CONTENT_TYPES (extension (filename req)) = Some t"
      "t \<in> {''image/jpeg'', ''image/png'', ''image/gif'', ''image/webp''}"
      using allowed_content_type by blast
    from a obtain tag len body where
      "handler_part_000 s3 req =
         NewResponse body 200
           [(''Content-Type'', map_of CONTENT_TYPES (extension (filename req))),
            (''Cache-Control'', Some ''public, max-age=604800''),
            (''ETag'', Some (strip_quotes tag)),
            (''Content-Length'', Some (toString len)),
            (''X-Content-Type-Options'', Some ''nosniff'')]"
      using handler_part_000_fetched by blast
    then have "header_get ''Content-Type'' (handler_part_000 s3 req) \<in>
        Some ` {''image/jpeg'', ''image/png'', ''image/gif'', ''image/webp''}"
      using t by (simp add: fetched_headers_part_000)
    with e allowed_last_dot_suffix [OF v e]
    show "extension (filename req) \<in> set ALLOWED_EXTENSIONS \<and>
      (\<exists>p t. filename req = p @ cu CHR ''.'' # t \<and> cu CHR ''.'' \<notin> set t \<and>
         toLowerCase (cu CHR ''.'' # t) \<in> set ALLOWED_EXTENSIONS) \<and>
      header_get ''Content-Type'' (handler_part_000 s3 req) \<in>
        Some ` {''image/jpeg'', ''image/png'', ''image/gif'', ''image/webp''}"
      by (intro conjI)
  qed
  have part_001: "status (handler_part_001 s3_file req) = 200 \<longrightarrow>
      extension (filename req) \<in> set ALLOWED_EXTENSIONS \<and>
      (\<exists>p t. filename req = p @ cu CHR ''.'' # t \<and> cu CHR ''.'' \<notin> set t \<and>
         toLowerCase (cu CHR ''.'' # t) \<in> set ALLOWED_EXTENSIONS) \<and>
      header_get ''Content-Type'' (handler_part_001 s3_file req) \<in>
        Some ` {''image/jpeg'', ''image/png'', ''image/gif'', ''image/webp''}"
  proof
    assume a: "status (handler_part_001 s3_file req) = 200"
    then have v: "validateFilename (filename req)"
      and e: "extension (filename req) \<in> set ALLOWED_EXTENSIONS"
      using handler_part_001_200 by blast+
    from e obtain t where t: "map_of CONTENT_TYPES (extension (filename req)) = Some t"
      "t \<in> {''image/jpeg'', ''image/png'', ''image/gif'', ''image/webp''}"
      using allowed_content_type by blast
    from a obtain stat where
      "file_stat (s3_file (filename req)) = Inr stat" and
      "handler_part_001 s3_file req =
         NewResponse (file_stream (s3_file (filename req))) 200
           [(''Content-Type'', map_of CONTENT_TYPES (extension (filename req))),
            (''Cache-Control'', Some ''public, max-age=604800''),
            (''ETag'', Some (etag stat)),
            (''X-Content-Type-Options'', Some ''nosniff'')]"
      using handler_part_001_fetched by blast
    then have "header_get ''Content-Type'' (handler_part_001 s3_file req) \<in>
        Some ` {''image/jpeg'', ''image/png'', ''image/gif'', ''image/webp''}"
      using t by (simp add: fetched_headers_part_001)
    with e allowed_last_dot_suffix [OF v e]
    show "extension (filename req) \<in> set ALLOWED_EXTENSIONS \<and>
      (\<exists>p t. filename req = p @ cu CHR ''.'' # t \<and> cu CHR ''.'' \<notin> set t \<and>
         toLowerCase (cu CHR ''.'' # t) \<in> set ALLOWED_EXTENSIONS) \<and>
      header_get ''Content-Type'' (handler_part_001 s3_file req) \<in>
        Some ` {''image/jpeg'', ''image/png'', ''image/gif'', ''image/webp''}"
      by (intro conjI)
  qed
  have types: "snd ` set CONTENT_TYPES =
      {''image/jpeg'', ''image/png'', ''image/gif'', ''image/webp''}"
    by (auto simp: CONTENT_TYPES_def)
  have keys: "fst ` set CONTENT_TYPES = set ALLOWED_EXTENSIONS"
    by (simp add: CONTENT_TYPES_def ALLOWED_EXTENSIONS_def)
  have five: "distinct ALLOWED_EXTENSIONS \<and> length ALLOWED_EXTENSIONS = 5"
    by (simp add: ALLOWED_EXTENSIONS_def js_def cu_def)
  from cached part_000 part_001 types keys five show ?thesis
    by (intro conjI) simp_all
qed

theorem ok_response_content_type_witness:
  "(request_for ''photo.jpg'',
    Response ''bytes of photo.jpg'' 200
      [(''cache-control'', ''public, max-age=604800''),
       (''content-length'', ''12345''),
       (''content-type'', ''image/jpeg''),
       (''etag'', ''abc123''),
       (''x-cache-status'', ''HIT''),
       (''x-content-type-options'', ''nosniff'')]) \<in>
     set (run Map.empty
            [(photo_store, Serving, True, request_for ''photo.jpg''),
             (photo_store, Serving, True, request_for ''photo.jpg'')]) \<and>
   extension (filename (request_for ''photo.jpg'')) \<in> set ALLOWED_EXTENSIONS \<and>
   header_get ''Content-Type''
     (Response ''bytes of photo.jpg'' 200
        [(''cache-control'', ''public, max-age=604800''),
         (''content-length'', ''12345''),
         (''content-type'', ''image/jpeg''),
         (''etag'', ''abc123''),
         (''x-cache-status'', ''HIT''),
         (''x-content-type-options'', ''nosniff'')]) = Some ''image/jpeg'' \<and>
   status (handler_part_000 photo_store (request_for ''photo.jpg'')) = 200 \<and>
   header_get ''Content-Type'' (handler_part_000 photo_store (request_for ''photo.jpg'')) =
     Some ''image/jpeg'' \<and>
   status (handler_part_001 photo_bucket (request_for ''photo.jpg'')) = 200 \<and>
   header_get ''Content-Type'' (handler_part_001 photo_bucket (request_for ''photo.jpg'')) =
     Some ''image/jpeg''"
proof -
  let ?hit = "Response ''bytes of photo.jpg'' 200
      [(''cache-control'', ''public, max-age=604800''),
       (''content-length'', ''12345''),
       (''content-type'', ''image/jpeg''),
       (''etag'', ''abc123''),
       (''x-cache-status'', ''HIT''),
       (''x-content-type-options'', ''nosniff'')]"
  let ?steps = "[(photo_store, Serving, True, request_for ''photo.jpg''),
                 (photo_store, Serving, True, request_for ''photo.jpg'')]"
  have member: "(request_for ''photo.jpg'', ?hit) \<in> set (run Map.empty ?steps)"
    unfolding photo_run by simp
  have ok: "status ?hit = 200" by simp
  have ct: "header_get ''Content-Type'' ?hit = Some ''image/jpeg''"
    by (simp add: header_get_def entries_get_Cons entries_get_Nil lower_header_names
        lower_def lower_char_def)
  have s0: "status (handler_part_000 photo_store (request_for ''photo.jpg'')) = 200"
    by (simp add: photo_fetched_part_000)
  have s1: "status (handler_part_001 photo_bucket (request_for ''photo.jpg'')) = 200"
    by (simp add: photo_fetched_part_001)
  have c0: "header_get ''Content-Type'' (handler_part_000 photo_store (request_for ''photo.jpg'')) =
     Some ''image/jpeg''"
    by (simp add: photo_fetched_part_000 fetched_headers_part_000)
  have c1: "header_get ''Content-Type'' (handler_part_001 photo_bucket (request_for ''photo.jpg'')) =
     Some ''image/jpeg''"
    by (simp add: photo_fetched_part_001 fetched_headers_part_001)
  from ok_response_content_type
    [of "request_for ''photo.jpg''" ?hit ?steps photo_store photo_bucket]
    member ok ct s0 s1 c0 c1
  show ?thesis by blast
qed

section \<open>Cache hits\<close>





end
